theory Spec2Isabelle
  imports Main
begin

unbundle bit_operations_syntax

section \<open>The text generation service of \<^verbatim>\<open>generate.py\<close>\<close>

text \<open>
  \<^verbatim>\<open>generate.py\<close> is one function, \<^verbatim>\<open>main\<close>: it loads a language model, then answers
  every line of standard input with one line of JSON on standard output. This theory
  embeds \<^verbatim>\<open>main\<close> as a function over an explicit process state and proves the
  properties of its protocol loop.

  What \<^verbatim>\<open>main\<close> calls but does not define is a parameter of the model, collected in
  the record \<open>world\<close>: the three loading calls of \<^verbatim>\<open>transformers\<close>, the generator they
  return, \<^verbatim>\<open>json.loads\<close>, the lines standard input delivers and the buffering policy of
  standard output. The small library functions whose result the script depends on
  character by character (\<^verbatim>\<open>str.strip\<close>, \<^verbatim>\<open>dict.get\<close>, \<^verbatim>\<open>json.dumps\<close> of a dictionary
  with one string entry, \<^verbatim>\<open>print\<close>) are written out after CPython.

  A failure is a Python exception derived from \<^verbatim>\<open>Exception\<close>, the class both handlers
  of \<^verbatim>\<open>main\<close> name; it is represented by the text \<^verbatim>\<open>str(e)\<close>, the only thing the
  script reads of it. Interpreter exits and signals (\<^verbatim>\<open>SystemExit\<close>,
  \<^verbatim>\<open>KeyboardInterrupt\<close>) raised inside a collaborator are outside the model. In
  \<open>main\<close> writing to the two output streams does not fail; \<open>main_io\<close>, further down,
  is the same program on streams that can refuse a write, and agrees with \<open>main\<close>
  when none is refused.
\<close>

subsection \<open>Python strings\<close>

text \<open>
  A Python \<^verbatim>\<open>str\<close> is a sequence of Unicode code points, so a string is a list of
  natural numbers; \<open>lit\<close> reads an ASCII literal.
\<close>

type_synonym ustr = "nat list"

definition lit :: "string \<Rightarrow> ustr" where
  "lit s = map of_char s"

definition newline :: nat where
  "newline = 10"

text \<open>
  \<^verbatim>\<open>str.isspace\<close> on one character, after CPython's \<^verbatim>\<open>_PyUnicode_IsWhitespace\<close>:
  the code points of bidirectional type WS, B or S and of category Zs.
\<close>

definition isspace :: "nat \<Rightarrow> bool" where
  "isspace c \<longleftrightarrow>
     (0x09 \<le> c \<and> c \<le> 0x0D) \<or> (0x1C \<le> c \<and> c \<le> 0x20) \<or> c = 0x85 \<or> c = 0xA0 \<or>
     c = 0x1680 \<or> (0x2000 \<le> c \<and> c \<le> 0x200A) \<or> c = 0x2028 \<or> c = 0x2029 \<or>
     c = 0x202F \<or> c = 0x205F \<or> c = 0x3000"

text \<open>\<^verbatim>\<open>s.strip()\<close>: whitespace removed at both ends.\<close>

definition strip :: "ustr \<Rightarrow> ustr" where
  "strip s = rev (dropWhile isspace (rev (dropWhile isspace s)))"

subsection \<open>Exceptions\<close>

datatype exn = Exception (str: ustr)

subsection \<open>Decoded JSON\<close>

text \<open>
  What \<^verbatim>\<open>json.loads\<close> returns: \<^verbatim>\<open>None\<close>, a \<^verbatim>\<open>bool\<close>, an \<^verbatim>\<open>int\<close>, a \<^verbatim>\<open>float\<close>
  (kept as its literal; the script never reads it), a \<^verbatim>\<open>str\<close>, a \<^verbatim>\<open>list\<close> or a
  \<^verbatim>\<open>dict\<close> (its items; \<open>map_of\<close> looks a key up).
\<close>

datatype json =
    JNull
  | JBool bool
  | JInt int
  | JFloat ustr
  | JStr ustr
  | JArr "json list"
  | JObj "(ustr \<times> json) list"

text \<open>\<^verbatim>\<open>type(v).__name__\<close>\<close>

fun type_name :: "json \<Rightarrow> ustr" where
  "type_name JNull = lit ''NoneType''"
| "type_name (JBool b) = lit ''bool''"
| "type_name (JInt i) = lit ''int''"
| "type_name (JFloat f) = lit ''float''"
| "type_name (JStr s) = lit ''str''"
| "type_name (JArr xs) = lit ''list''"
| "type_name (JObj kvs) = lit ''dict''"

text \<open>
  \<open>quoted\<close> puts a string between single quotes. The \<^verbatim>\<open>AttributeError\<close> of a method
  that the value's type does not have reads \<^verbatim>\<open>'int' object has no attribute 'strip'\<close>.
\<close>

definition quoted :: "ustr \<Rightarrow> ustr" where
  "quoted s = [0x27] @ s @ [0x27]"

definition attribute_error :: "json \<Rightarrow> ustr \<Rightarrow> exn" where
  "attribute_error v attr =
     Exception (quoted (type_name v) @ lit '' object has no attribute '' @ quoted attr)"

text \<open>\<^verbatim>\<open>data.get(key, default)\<close>: only a \<^verbatim>\<open>dict\<close> has the method.\<close>

fun get :: "json \<Rightarrow> ustr \<Rightarrow> json \<Rightarrow> exn + json" where
  "get (JObj kvs) key dflt =
     Inr (case map_of kvs key of None \<Rightarrow> dflt | Some v \<Rightarrow> v)"
| "get v key dflt = Inl (attribute_error v (lit ''get''))"

text \<open>\<^verbatim>\<open>v.strip()\<close>: only a \<^verbatim>\<open>str\<close> has the method.\<close>

fun strip_value :: "json \<Rightarrow> exn + ustr" where
  "strip_value (JStr s) = Inr (strip s)"
| "strip_value v = Inl (attribute_error v (lit ''strip''))"

subsection \<open>\<^verbatim>\<open>json.dumps\<close> of a dictionary with one string entry\<close>

text \<open>
  After \<^verbatim>\<open>json.encoder.py_encode_basestring_ascii\<close> (\<^verbatim>\<open>ensure_ascii\<close> is on by
  default): a backslash, a double quote and every character outside \<^verbatim>\<open>' '..'~'\<close> is
  replaced, by its short escape if it has one, else by \<^verbatim>\<open>\uXXXX\<close>, a code point beyond
  the basic plane by a surrogate pair.
\<close>

definition hexdigit :: "nat \<Rightarrow> nat" where
  "hexdigit d = (if d < 10 then 0x30 + d else 0x57 + d)"

text \<open>\<^verbatim>\<open>'{0:04x}'.format(n)\<close> for \<open>n < 0x10000\<close>, the only values it is called on.\<close>

definition hex4 :: "nat \<Rightarrow> ustr" where
  "hex4 n = [hexdigit (n div 0x1000 mod 16), hexdigit (n div 0x100 mod 16),
             hexdigit (n div 0x10 mod 16), hexdigit (n mod 16)]"

definition replace :: "nat \<Rightarrow> ustr" where
  "replace c =
     (if c = 0x5C then [0x5C, 0x5C]
      else if c = 0x22 then [0x5C, 0x22]
      else if c = 0x08 then [0x5C, 0x62]
      else if c = 0x0C then [0x5C, 0x66]
      else if c = 0x0A then [0x5C, 0x6E]
      else if c = 0x0D then [0x5C, 0x72]
      else if c = 0x09 then [0x5C, 0x74]
      else if c < 0x10000 then [0x5C, 0x75] @ hex4 c
      else
        (let n = c - 0x10000;
             s1 = 0xd800 OR (drop_bit 10 n AND 0x3ff);
             s2 = 0xdc00 OR (n AND 0x3ff)
         in [0x5C, 0x75] @ hex4 s1 @ [0x5C, 0x75] @ hex4 s2))"

definition encode_basestring_ascii :: "ustr \<Rightarrow> ustr" where
  "encode_basestring_ascii s =
     [0x22] @
     concat (map (\<lambda>c. if c = 0x5C \<or> c = 0x22 \<or> \<not> (0x20 \<le> c \<and> c \<le> 0x7E) then replace c
                      else [c]) s)
     @ [0x22]"

text \<open>\<^verbatim>\<open>json.dumps({key: value})\<close> with the default separators.\<close>

definition dumps :: "ustr \<Rightarrow> ustr \<Rightarrow> ustr" where
  "dumps key val =
     lit ''{'' @ encode_basestring_ascii key @ lit '': '' @ encode_basestring_ascii val
     @ lit ''}''"

subsection \<open>Output streams\<close>

text \<open>
  Standard output is a buffered text stream: \<open>pending\<close> is the text still in the
  buffer, \<open>delivered\<close> the text the consumer has received. After every write the
  stream hands on as much of its buffer as its own policy says (\<open>drain\<close>, from the
  buffer's content to a number of characters): everything at a newline when the stream
  is line buffered (a terminal), nothing below the buffer size when it is block
  buffered (a pipe), everything always with \<^verbatim>\<open>python -u\<close>. The policy
  \<open>block_buffered\<close> below is exact while the buffer stays under its size, the only
  use made of it; at the size CPython hands on what was buffered before the write
  that passes it, where \<open>block_buffered\<close> hands on everything.
\<close>

record channel =
  delivered :: ustr
  pending :: ustr

definition written :: "channel \<Rightarrow> ustr" where
  "written ch = delivered ch @ pending ch"

definition write_text :: "(ustr \<Rightarrow> nat) \<Rightarrow> ustr \<Rightarrow> channel \<Rightarrow> channel" where
  "write_text drain text ch =
     (let p = pending ch @ text; k = drain p
      in \<lparr>delivered = delivered ch @ take k p, pending = drop k p\<rparr>)"

definition flush :: "channel \<Rightarrow> channel" where
  "flush ch = \<lparr>delivered = delivered ch @ pending ch, pending = []\<rparr>"

text \<open>
  \<^verbatim>\<open>print(text, flush=fl)\<close>: the text, then the line end, then a flush if asked for.
\<close>

definition print :: "(ustr \<Rightarrow> nat) \<Rightarrow> ustr \<Rightarrow> bool \<Rightarrow> channel \<Rightarrow> channel" where
  "print drain text fl ch =
     (let ch' = write_text drain [newline] (write_text drain text ch)
      in if fl then flush ch' else ch')"

definition line_buffered :: "ustr \<Rightarrow> nat" where
  "line_buffered p = (if newline \<in> set p then length p else 0)"

definition block_buffered :: "nat \<Rightarrow> ustr \<Rightarrow> nat" where
  "block_buffered cap p = (if cap \<le> length p then length p else 0)"

subsection \<open>The process and its collaborators\<close>

text \<open>
  The state of the process: the two output streams, the number of lines taken from
  standard input, and the calls made to the generator so far (prompt, \<^verbatim>\<open>max_length\<close>,
  \<^verbatim>\<open>num_return_sequences\<close>).
\<close>

record proc =
  stdout :: channel
  stderr :: ustr
  consumed :: nat
  calls :: "(ustr \<times> int \<times> int) list"

text \<open>
  The collaborators. The generator is a stateful object (\<open>'g\<close> is its state): a call
  returns a list of candidates, each a dictionary from strings to strings, or raises.
\<close>

record ('t, 'm, 'g) world =
  tokenizer_from_pretrained :: "ustr \<Rightarrow> exn + 't"
  model_from_pretrained :: "ustr \<Rightarrow> exn + 'm"
  pipeline :: "ustr \<Rightarrow> 'm \<Rightarrow> 't \<Rightarrow> int \<Rightarrow> exn + 'g"
  generator :: "'g \<Rightarrow> ustr \<Rightarrow> int \<Rightarrow> int \<Rightarrow> (exn + (ustr \<times> ustr) list list) \<times> 'g"
  loads :: "ustr \<Rightarrow> exn + json"
  drain :: "ustr \<Rightarrow> nat"

definition print_out :: "('t, 'm, 'g) world \<Rightarrow> ustr \<Rightarrow> proc \<Rightarrow> proc" where
  "print_out W text s = s\<lparr>stdout := print (drain W) text False (stdout s)\<rparr>"

definition print_err :: "ustr \<Rightarrow> proc \<Rightarrow> proc" where
  "print_err text s = s\<lparr>stderr := stderr s @ text @ [newline]\<rparr>"

definition start :: proc where
  "start = \<lparr>stdout = \<lparr>delivered = [], pending = []\<rparr>, stderr = [], consumed = 0, calls = []\<rparr>"

subsection \<open>\<^verbatim>\<open>main\<close>\<close>

definition MODEL_NAME :: ustr where
  "MODEL_NAME = lit ''EleutherAI/gpt-neo-125M''"

text \<open>Lines 25 to 27: tokenizer, model, pipeline; the first failure ends the loading.\<close>

definition load :: "('t, 'm, 'g) world \<Rightarrow> exn + 'g" where
  "load W =
     (case tokenizer_from_pretrained W MODEL_NAME of
        Inl e \<Rightarrow> Inl e
      | Inr tokenizer \<Rightarrow>
          (case model_from_pretrained W MODEL_NAME of
             Inl e \<Rightarrow> Inl e
           | Inr model \<Rightarrow> pipeline W (lit ''text-generation'') model tokenizer (- 1)))"

text \<open>
  Line 40: \<^verbatim>\<open>output[0]["generated_text"] if output else ""\<close>. A candidate without
  the key raises \<^verbatim>\<open>KeyError\<close>, whose text is the key between quotes.
\<close>

definition generated_text :: "(ustr \<times> ustr) list list \<Rightarrow> exn + ustr" where
  "generated_text output =
     (case output of
        [] \<Rightarrow> Inr []
      | first # _ \<Rightarrow>
          (case map_of first (lit ''generated_text'') of
             None \<Rightarrow> Inl (Exception (quoted (lit ''generated_text'')))
           | Some text \<Rightarrow> Inr text))"

text \<open>
  Lines 33 to 41, the body of the inner \<^verbatim>\<open>try\<close>: it ends normally (after one
  \<^verbatim>\<open>print\<close>) or with the exception of the statement that raised.
\<close>

definition try_line ::
  "('t, 'm, 'g) world \<Rightarrow> ustr \<Rightarrow> 'g \<times> proc \<Rightarrow> (exn + unit) \<times> 'g \<times> proc" where
  "try_line W line gs =
     (case gs of (g, s) \<Rightarrow>
      (case loads W line of
         Inl e \<Rightarrow> (Inl e, g, s)
       | Inr data \<Rightarrow>
           (case get data (lit ''prompt'') (JStr []) of
              Inl e \<Rightarrow> (Inl e, g, s)
            | Inr v \<Rightarrow>
                (case strip_value v of
                   Inl e \<Rightarrow> (Inl e, g, s)
                 | Inr prompt \<Rightarrow>
                     if prompt = [] then
                       (Inr (), g,
                        print_out W (dumps (lit ''error'') (lit ''Prompt is required.'')) s)
                     else
                       (case generator W g prompt 128 1 of (r, g') \<Rightarrow>
                         (let s' = s\<lparr>calls := calls s @ [(prompt, 128, 1)]\<rparr> in
                          (case r of
                             Inl e \<Rightarrow> (Inl e, g', s')
                           | Inr output \<Rightarrow>
                               (case generated_text output of
                                  Inl e \<Rightarrow> (Inl e, g', s')
                                | Inr result \<Rightarrow>
                                    (Inr (), g',
                                     print_out W (dumps (lit ''result'') result) s')))))))))"

text \<open>Lines 32 to 43: the \<^verbatim>\<open>try\<close> with its handler \<^verbatim>\<open>except Exception as e\<close>.\<close>

definition handle_line ::
  "('t, 'm, 'g) world \<Rightarrow> ustr \<Rightarrow> 'g \<times> proc \<Rightarrow> 'g \<times> proc" where
  "handle_line W line gs =
     (case try_line W line gs of
        (Inl e, g, s) \<Rightarrow> (g, print_out W (dumps (lit ''error'') (str e)) s)
      | (Inr u, g, s) \<Rightarrow> (g, s))"

text \<open>
  Line 31, \<^verbatim>\<open>for line in sys.stdin\<close>. Standard input is the list of what each pull
  gives, a line (\<open>Inr\<close>) or an exception of the stream itself (\<open>Inl\<close>, a byte
  sequence that does not decode); the end of the list is the end of the input.
  An exception of the stream leaves the loop.
\<close>

fun serve ::
  "('t, 'm, 'g) world \<Rightarrow> (exn + ustr) list \<Rightarrow> 'g \<times> proc \<Rightarrow> (exn + unit) \<times> 'g \<times> proc" where
  "serve W [] gs = (Inr (), gs)"
| "serve W (Inl e # rest) gs = (Inl e, gs)"
| "serve W (Inr line # rest) gs =
     (case gs of (g, s) \<Rightarrow>
        serve W rest (handle_line W line (g, s\<lparr>consumed := consumed s + 1\<rparr>)))"

text \<open>
  The end of the process when the final flush succeeds: the interpreter flushes
  standard output and exits with the status (\<open>exit_io\<close> below is the general case).
\<close>

definition exit :: "int \<Rightarrow> proc \<Rightarrow> int \<times> proc" where
  "exit status s = (status, s\<lparr>stdout := flush (stdout s)\<rparr>)"

text \<open>Lines 44 to 46, the outer handler.\<close>

definition fatal :: "('t, 'm, 'g) world \<Rightarrow> exn \<Rightarrow> proc \<Rightarrow> int \<times> proc" where
  "fatal W e s =
     exit 1 (print_out W (dumps (lit ''error'') (lit ''Failed to load model: '' @ str e)) s)"

definition main :: "('t, 'm, 'g) world \<Rightarrow> (exn + ustr) list \<Rightarrow> int \<times> proc" where
  "main W stdin =
     (let s0 = print_err (lit ''Loading model...'') start in
      (case load W of
         Inl e \<Rightarrow> fatal W e s0
       | Inr g \<Rightarrow>
           (case serve W stdin (g, print_err (lit ''Model loaded.'') s0) of
              (Inl e, g', s) \<Rightarrow> fatal W e s
            | (Inr u, g', s) \<Rightarrow> exit 0 s)))"

text \<open>What the run shows from outside.\<close>

definition exit_status :: "int \<times> proc \<Rightarrow> int" where
  "exit_status r = fst r"

definition emitted :: "int \<times> proc \<Rightarrow> ustr" where
  "emitted r = delivered (stdout (snd r))"

definition lines_consumed :: "int \<times> proc \<Rightarrow> nat" where
  "lines_consumed r = consumed (snd r)"

definition generator_calls :: "int \<times> proc \<Rightarrow> (ustr \<times> int \<times> int) list" where
  "generator_calls r = calls (snd r)"

subsection \<open>Output that can fail\<close>

text \<open>
  \<open>main\<close> above takes every \<^verbatim>\<open>print\<close> and the flush at interpreter exit to succeed.
  \<open>main_io\<close> is the same program on output streams that can refuse a write. What the
  streams do is the record \<open>io\<close>: \<open>print_raises n\<close> is the exception that the
  \<open>n\<close>-th call of \<^verbatim>\<open>print\<close> of the run raises, if any (the calls to either stream are
  counted from 0); \<open>stdout_after\<close> and \<open>stderr_after\<close> are what a refused write leaves
  in the stream, which the script cannot know; \<open>traceback\<close> is the report of an uncaught
  exception that the interpreter writes to standard error; \<open>exit_flush_fails\<close> says
  that the flush of the standard streams at interpreter exit fails, and CPython then
  ends with status 120 whatever the status was.

  A \<^verbatim>\<open>print\<close> that raises inside the inner \<^verbatim>\<open>try\<close> (lines 36 and 41) is caught by the
  handler of the line like any other exception; one that raises inside that handler
  (line 43) or at a notice (lines 24 and 28) reaches the outer handler; one that raises
  inside the outer handler (line 45) is not caught, and the interpreter reports it and
  ends with status 1, the status \<^verbatim>\<open>sys.exit(1)\<close> gives as well.
\<close>

record io =
  print_raises :: "nat \<Rightarrow> exn option"
  stdout_after :: "nat \<Rightarrow> channel \<Rightarrow> channel"
  stderr_after :: "nat \<Rightarrow> ustr \<Rightarrow> ustr"
  traceback :: "exn \<Rightarrow> ustr"
  exit_flush_fails :: bool

definition print_out_io ::
  "io \<Rightarrow> ('t, 'm, 'g) world \<Rightarrow> ustr \<Rightarrow> nat \<times> proc \<Rightarrow> (exn + unit) \<times> nat \<times> proc" where
  "print_out_io F W text ns =
     (case ns of (n, s) \<Rightarrow>
        (case print_raises F n of
           None \<Rightarrow> (Inr (), n + 1, print_out W text s)
         | Some e \<Rightarrow> (Inl e, n + 1, s\<lparr>stdout := stdout_after F n (stdout s)\<rparr>)))"

definition print_err_io :: "io \<Rightarrow> ustr \<Rightarrow> nat \<times> proc \<Rightarrow> (exn + unit) \<times> nat \<times> proc" where
  "print_err_io F text ns =
     (case ns of (n, s) \<Rightarrow>
        (case print_raises F n of
           None \<Rightarrow> (Inr (), n + 1, print_err text s)
         | Some e \<Rightarrow> (Inl e, n + 1, s\<lparr>stderr := stderr_after F n (stderr s)\<rparr>)))"

definition try_line_io ::
  "io \<Rightarrow> ('t, 'm, 'g) world \<Rightarrow> ustr \<Rightarrow> 'g \<times> nat \<times> proc \<Rightarrow> (exn + unit) \<times> 'g \<times> nat \<times> proc" where
  "try_line_io F W line gns =
     (case gns of (g, n, s) \<Rightarrow>
      (case loads W line of
         Inl e \<Rightarrow> (Inl e, g, n, s)
       | Inr data \<Rightarrow>
           (case get data (lit ''prompt'') (JStr []) of
              Inl e \<Rightarrow> (Inl e, g, n, s)
            | Inr v \<Rightarrow>
                (case strip_value v of
                   Inl e \<Rightarrow> (Inl e, g, n, s)
                 | Inr prompt \<Rightarrow>
                     if prompt = [] then
                       (case print_out_io F W
                               (dumps (lit ''error'') (lit ''Prompt is required.'')) (n, s) of
                          (r, ns') \<Rightarrow> (r, g, ns'))
                     else
                       (case generator W g prompt 128 1 of (r, g') \<Rightarrow>
                         (let s' = s\<lparr>calls := calls s @ [(prompt, 128, 1)]\<rparr> in
                          (case r of
                             Inl e \<Rightarrow> (Inl e, g', n, s')
                           | Inr output \<Rightarrow>
                               (case generated_text output of
                                  Inl e \<Rightarrow> (Inl e, g', n, s')
                                | Inr result \<Rightarrow>
                                    (case print_out_io F W (dumps (lit ''result'') result)
                                            (n, s') of
                                       (r', ns') \<Rightarrow> (r', g', ns'))))))))))"

definition handle_line_io ::
  "io \<Rightarrow> ('t, 'm, 'g) world \<Rightarrow> ustr \<Rightarrow> 'g \<times> nat \<times> proc \<Rightarrow> (exn + unit) \<times> 'g \<times> nat \<times> proc" where
  "handle_line_io F W line gns =
     (case try_line_io F W line gns of
        (Inl e, g, ns) \<Rightarrow>
          (case print_out_io F W (dumps (lit ''error'') (str e)) ns of
             (r, ns') \<Rightarrow> (r, g, ns'))
      | (Inr u, g, ns) \<Rightarrow> (Inr (), g, ns))"

fun serve_io ::
  "io \<Rightarrow> ('t, 'm, 'g) world \<Rightarrow> (exn + ustr) list \<Rightarrow> 'g \<times> nat \<times> proc \<Rightarrow>
   (exn + unit) \<times> 'g \<times> nat \<times> proc" where
  "serve_io F W [] gns = (Inr (), gns)"
| "serve_io F W (Inl e # rest) gns = (Inl e, gns)"
| "serve_io F W (Inr line # rest) gns =
     (case gns of (g, n, s) \<Rightarrow>
        (case handle_line_io F W line (g, n, s\<lparr>consumed := consumed s + 1\<rparr>) of
           (Inl e, gns') \<Rightarrow> (Inl e, gns')
         | (Inr u, gns') \<Rightarrow> serve_io F W rest gns'))"

definition exit_io :: "io \<Rightarrow> int \<Rightarrow> nat \<times> proc \<Rightarrow> int \<times> proc" where
  "exit_io F status ns =
     (case ns of (n, s) \<Rightarrow>
        if exit_flush_fails F then (120, s\<lparr>stdout := stdout_after F n (stdout s)\<rparr>)
        else (status, s\<lparr>stdout := flush (stdout s)\<rparr>))"

definition fatal_io :: "io \<Rightarrow> ('t, 'm, 'g) world \<Rightarrow> exn \<Rightarrow> nat \<times> proc \<Rightarrow> int \<times> proc" where
  "fatal_io F W e ns =
     (case print_out_io F W
             (dumps (lit ''error'') (lit ''Failed to load model: '' @ str e)) ns of
        (Inl e', n', s') \<Rightarrow> exit_io F 1 (n', s'\<lparr>stderr := stderr s' @ traceback F e'\<rparr>)
      | (Inr u, ns') \<Rightarrow> exit_io F 1 ns')"

definition main_io :: "io \<Rightarrow> ('t, 'm, 'g) world \<Rightarrow> (exn + ustr) list \<Rightarrow> int \<times> proc" where
  "main_io F W stdin =
     (case print_err_io F (lit ''Loading model...'') (0, start) of
        (Inl e, ns) \<Rightarrow> fatal_io F W e ns
      | (Inr u, ns) \<Rightarrow>
          (case load W of
             Inl e \<Rightarrow> fatal_io F W e ns
           | Inr g \<Rightarrow>
               (case print_err_io F (lit ''Model loaded.'') ns of
                  (Inl e, ns') \<Rightarrow> fatal_io F W e ns'
                | (Inr u, ns') \<Rightarrow>
                    (case serve_io F W stdin (g, ns') of
                       (Inl e, g', ns'') \<Rightarrow> fatal_io F W e ns''
                     | (Inr u, g', ns'') \<Rightarrow> exit_io F 0 ns''))))"

definition writes_succeed :: "io \<Rightarrow> bool" where
  "writes_succeed F \<longleftrightarrow> (\<forall>n. print_raises F n = None) \<and> \<not> exit_flush_fails F"

subsection \<open>Sample collaborators\<close>

text \<open>
  Concrete collaborators for running the model: \<open>sample_loads\<close> is \<^verbatim>\<open>json.loads\<close> on
  the lines used below (every other line of the samples is no JSON at all, and
  \<^verbatim>\<open>json.loads\<close> reports it at its first character); the sample generators continue
  a prompt, return no candidate, return a candidate without text, or raise; the state
  of a sample generator counts its calls.
\<close>

definition sample_loads :: "ustr \<Rightarrow> exn + json" where
  \<open>sample_loads line =
     (if line = lit ''{"prompt": "The stock market"}'' @ [newline]
        then Inr (JObj [(lit ''prompt'', JStr (lit ''The stock market''))])
      else if line = lit ''{"prompt": "  "}'' @ [newline]
        then Inr (JObj [(lit ''prompt'', JStr (lit ''  ''))])
      else if line = lit ''{}'' @ [newline]
        then Inr (JObj [])
      else if line = lit ''{"prompt": 5}'' @ [newline]
        then Inr (JObj [(lit ''prompt'', JInt 5)])
      else if line = lit ''[1, 2]'' @ [newline]
        then Inr (JArr [JInt 1, JInt 2])
      else Inl (Exception (lit ''Expecting value: line 1 column 1 (char 0)'')))\<close>

definition continues :: "ustr \<Rightarrow> exn + (ustr \<times> ustr) list list" where
  "continues prompt = Inr [[(lit ''generated_text'', prompt @ lit '' is up'')]]"

definition no_candidate :: "ustr \<Rightarrow> exn + (ustr \<times> ustr) list list" where
  "no_candidate prompt = Inr []"

definition no_text :: "ustr \<Rightarrow> exn + (ustr \<times> ustr) list list" where
  "no_text prompt = Inr [[]]"

definition raises :: "ustr \<Rightarrow> exn + (ustr \<times> ustr) list list" where
  "raises prompt = Inl (Exception (lit ''index out of range in self''))"

definition sample_world ::
  "(ustr \<Rightarrow> exn + (ustr \<times> ustr) list list) \<Rightarrow> (ustr \<Rightarrow> nat) \<Rightarrow> (unit, unit, nat) world" where
  "sample_world gen policy =
     \<lparr>tokenizer_from_pretrained = (\<lambda>name. Inr ()),
      model_from_pretrained = (\<lambda>name. Inr ()),
      pipeline = (\<lambda>task model tokenizer device. Inr 0),
      generator = (\<lambda>g prompt max_length num_return_sequences. (gen prompt, g + 1)),
      loads = sample_loads,
      drain = policy\<rparr>"

text \<open>A world whose model cannot be fetched.\<close>

definition offline_world :: "(unit, unit, nat) world" where
  "offline_world = (sample_world continues line_buffered)
     \<lparr>model_from_pretrained := (\<lambda>name. Inl (Exception (lit ''resource unavailable'')))\<rparr>"

definition sample_lines :: "ustr list" where
  \<open>sample_lines =
     [lit ''{"prompt": "The stock market"}'' @ [newline],
      lit ''not json'' @ [newline],
      lit ''{"prompt": "  "}'' @ [newline]]\<close>

text \<open>
  Output streams: one that takes everything; one (a full device behind a block buffered
  stream) that takes every \<^verbatim>\<open>print\<close> into its buffer and fails at the final flush;
  and one (an unbuffered standard output whose reader has gone) that lets the two
  notices through, the calls 0 and 1 of the run, and refuses every call after them.
\<close>

definition reliable :: io where
  "reliable = \<lparr>print_raises = (\<lambda>n. None), stdout_after = (\<lambda>n ch. ch),
     stderr_after = (\<lambda>n t. t), traceback = (\<lambda>e. []), exit_flush_fails = False\<rparr>"

definition full_device :: io where
  "full_device = reliable\<lparr>exit_flush_fails := True\<rparr>"

definition closed_pipe :: io where
  "closed_pipe = reliable
     \<lparr>print_raises := (\<lambda>n. if n < 2 then None else Some (Exception (lit ''[Errno 32] Broken pipe'')))\<rparr>"

section \<open>Facts about the library functions and the loop\<close>

lemma written_write_text: "written (write_text d t ch) = written ch @ t"
  by (simp add: written_def write_text_def Let_def del: take_append drop_append)

lemma written_flush: "written (flush ch) = written ch"
  by (simp add: written_def flush_def)

lemma written_print: "written (print d t fl ch) = written ch @ t @ [newline]"
  by (simp add: print_def Let_def written_write_text written_flush)

lemma flush_simps: "delivered (flush ch) = written ch" "pending (flush ch) = []"
  by (simp_all add: flush_def written_def)

lemma hexdigit_printable: "d < 16 \<Longrightarrow> 0x20 \<le> hexdigit d \<and> hexdigit d \<le> 0x7E"
  by (simp add: hexdigit_def)

lemma hex4_printable: "c \<in> set (hex4 n) \<Longrightarrow> 0x20 \<le> c \<and> c \<le> 0x7E"
  using hexdigit_printable [of "n div 0x1000 mod 16"] hexdigit_printable [of "n div 0x100 mod 16"]
    hexdigit_printable [of "n div 0x10 mod 16"] hexdigit_printable [of "n mod 16"]
  by (auto simp: hex4_def)

lemma replace_printable: "c \<in> set (replace x) \<Longrightarrow> 0x20 \<le> c \<and> c \<le> 0x7E"
  by (auto simp: replace_def Let_def dest: hex4_printable split: if_splits)

lemma encode_printable: "c \<in> set (encode_basestring_ascii s) \<Longrightarrow> 0x20 \<le> c \<and> c \<le> 0x7E"
  by (auto simp: encode_basestring_ascii_def dest: replace_printable split: if_splits)

lemma dumps_printable: "c \<in> set (dumps k v) \<Longrightarrow> 0x20 \<le> c \<and> c \<le> 0x7E"
  by (auto simp: dumps_def lit_def dest: encode_printable)

lemma dumps_no_newline: "newline \<notin> set (dumps k v)"
  using dumps_printable [of newline k v] by (auto simp: newline_def)

lemma strip_empty_iff: "strip s = [] \<longleftrightarrow> (\<forall>c\<in>set s. isspace c)"
proof
  assume "strip s = []"
  then have all: "\<forall>x\<in>set (dropWhile isspace s). isspace x"
    by (simp add: strip_def)
  have "dropWhile isspace s = []"
  proof (rule ccontr)
    assume ne: "dropWhile isspace s \<noteq> []"
    then have "\<not> isspace (hd (dropWhile isspace s))"
      by (rule hd_dropWhile)
    moreover from ne have "hd (dropWhile isspace s) \<in> set (dropWhile isspace s)"
      by simp
    ultimately show False
      using all by blast
  qed
  then show "\<forall>c\<in>set s. isspace c"
    by simp
next
  assume "\<forall>c\<in>set s. isspace c"
  then have d: "dropWhile isspace s = []"
    by simp
  show "strip s = []"
    unfolding strip_def d by simp
qed

lemma print_out_simps:
  "stdout (print_out W t s) = print (drain W) t False (stdout s)"
  "stderr (print_out W t s) = stderr s"
  "consumed (print_out W t s) = consumed s"
  "calls (print_out W t s) = calls s"
  by (simp_all add: print_out_def)

lemma print_pending_empty:
  assumes "\<forall>p. length p < d (p @ [newline])"
  shows "pending (print d r fl ch) = []"
proof -
  have "length (pending (write_text d r ch)) < d (pending (write_text d r ch) @ [newline])"
    using assms by blast
  then show ?thesis
    by (simp add: print_def Let_def write_text_def [of d "[newline]"] flush_def)
qed

lemma try_line_raises_stdout:
  "try_line W line (g, s) = (Inl e, g', s') \<Longrightarrow> stdout s' = stdout s \<and> consumed s' = consumed s \<and> stderr s' = stderr s"
  by (auto simp: try_line_def Let_def split: sum.splits if_splits prod.splits)

lemma try_line_loads_fails:
  "loads W line = Inl e \<Longrightarrow> try_line W line (g, s) = (Inl e, g, s)"
  by (simp add: try_line_def)

lemma try_line_not_dict:
  "loads W line = Inr v \<Longrightarrow> \<forall>kvs. v \<noteq> JObj kvs \<Longrightarrow>
   try_line W line (g, s) = (Inl (attribute_error v (lit ''get'')), g, s)"
  by (cases v) (simp_all add: try_line_def)

lemma handle_line_raised:
  "try_line W line gs = (Inl e, g', s') \<Longrightarrow>
   handle_line W line gs = (g', print_out W (dumps (lit ''error'') (str e)) s')"
  by (simp add: handle_line_def)

lemma handle_line_one_line:
  "\<exists>r. ((\<exists>t. r = dumps (lit ''result'') t) \<or> (\<exists>m. r = dumps (lit ''error'') m)) \<and>
       stdout (snd (handle_line W line (g, s))) = print (drain W) r False (stdout s) \<and>
       consumed (snd (handle_line W line (g, s))) = consumed s \<and>
       stderr (snd (handle_line W line (g, s))) = stderr s"
  by (auto simp: handle_line_def try_line_def Let_def print_out_simps
      split: sum.splits prod.splits)

lemma serve_lines_append:
  "serve W (map Inr xs @ rest) gs = serve W rest (snd (serve W (map Inr xs) gs))"
  by (induction xs arbitrary: gs) (auto split: prod.splits)

lemma serve_lines_returns: "fst (serve W (map Inr xs) gs) = Inr ()"
  by (induction xs arbitrary: gs) (auto split: prod.splits)

lemma start_simps:
  "written (stdout start) = []" "calls start = []" "consumed start = 0"
  by (simp_all add: start_def written_def)

lemma sample_world_simps:
  "loads (sample_world gen pol) = sample_loads"
  "drain (sample_world gen pol) = pol"
  "generator (sample_world gen pol) g prompt ml n = (gen prompt, g + 1)"
  by (simp_all add: sample_world_def)

lemma load_sample_world: "load (sample_world gen pol) = Inr 0"
  by (simp add: load_def sample_world_def)

lemma sample_loads_simps:
  \<open>sample_loads (lit ''{"prompt": "The stock market"}'' @ [newline]) =
     Inr (JObj [(lit ''prompt'', JStr (lit ''The stock market''))])\<close>
  \<open>sample_loads (lit ''not json'' @ [newline]) =
     Inl (Exception (lit ''Expecting value: line 1 column 1 (char 0)''))\<close>
  \<open>sample_loads (lit ''{"prompt": "  "}'' @ [newline]) =
     Inr (JObj [(lit ''prompt'', JStr (lit ''  ''))])\<close>
  \<open>sample_loads (lit ''{}'' @ [newline]) = Inr (JObj [])\<close>
  \<open>sample_loads (lit ''{"prompt": 5}'' @ [newline]) = Inr (JObj [(lit ''prompt'', JInt 5)])\<close>
  \<open>sample_loads (lit ''[1, 2]'' @ [newline]) = Inr (JArr [JInt 1, JInt 2])\<close>
  by (simp_all add: sample_loads_def lit_def newline_def)

lemma handle_line_counts:
  assumes "handle_line W line (g, s) = (g', s')"
  shows "consumed s' = consumed s \<and> stderr s' = stderr s \<and>
         count_list (written (stdout s')) newline = count_list (written (stdout s)) newline + 1"
proof -
  obtain r where r: "(\<exists>t. r = dumps (lit ''result'') t) \<or> (\<exists>m. r = dumps (lit ''error'') m)"
    and out: "stdout (snd (handle_line W line (g, s))) = print (drain W) r False (stdout s)"
    and rest: "consumed (snd (handle_line W line (g, s))) = consumed s"
      "stderr (snd (handle_line W line (g, s))) = stderr s"
    using handle_line_one_line [of W line g s] by blast
  from r have "newline \<notin> set r"
    by (auto simp: dumps_no_newline)
  with out rest assms show ?thesis
    by (simp add: written_print)
qed

lemma serve_returns_iff:
  "fst (serve W stdin gs) = Inr () \<longleftrightarrow> (\<forall>x\<in>set stdin. \<exists>l. x = Inr l)"
  by (induction W stdin gs rule: serve.induct) (auto split: prod.splits)

lemma serve_counts:
  "serve W stdin (g, s) = (Inr (), g', s') \<Longrightarrow>
   consumed s' = consumed s + length stdin \<and> stderr s' = stderr s \<and>
   count_list (written (stdout s')) newline = count_list (written (stdout s)) newline + length stdin"
proof (induction stdin arbitrary: g s)
  case Nil
  then show ?case by simp
next
  case (Cons x stdin)
  show ?case
  proof (cases x)
    case (Inl e)
    with Cons.prems show ?thesis by simp
  next
    case (Inr line)
    obtain g1 s1 where h: "handle_line W line (g, s\<lparr>consumed := consumed s + 1\<rparr>) = (g1, s1)"
      by (cases "handle_line W line (g, s\<lparr>consumed := consumed s + 1\<rparr>)")
    with Cons.prems Inr have "serve W stdin (g1, s1) = (Inr (), g', s')"
      by simp
    from Cons.IH [OF this] handle_line_counts [OF h] show ?thesis
      by simp
  qed
qed

lemma serve_raises:
  "serve W (map Inr pre @ Inl e # post) gs = (Inl e, snd (serve W (map Inr pre) gs))"
  by (simp add: serve_lines_append)

lemma serve_calls_consumed_at_raise:
  "serve W (map Inr pre) (g, s) = (r, g', s') \<Longrightarrow> consumed s' = consumed s + length pre"
  using serve_counts [of W "map Inr pre" g s g' s'] serve_lines_returns [of W pre "(g, s)"]
  by simp

lemma exit_simps:
  "exit_status (exit n s) = n" "emitted (exit n s) = written (stdout s)"
  "lines_consumed (exit n s) = consumed s" "generator_calls (exit n s) = calls s"
  by (simp_all add: exit_def exit_status_def emitted_def lines_consumed_def
      generator_calls_def flush_simps)

lemma fatal_simps:
  "exit_status (fatal W e s) = 1"
  "emitted (fatal W e s) =
     written (stdout s) @ dumps (lit ''error'') (lit ''Failed to load model: '' @ str e) @ [newline]"
  "lines_consumed (fatal W e s) = consumed s" "generator_calls (fatal W e s) = calls s"
  by (simp_all add: fatal_def exit_simps print_out_simps written_print)

lemma print_err_simps:
  "stdout (print_err t s) = stdout s" "consumed (print_err t s) = consumed s"
  "calls (print_err t s) = calls s"
  by (simp_all add: print_err_def)

lemma main_not_loaded:
  "load W = Inl e \<Longrightarrow> main W stdin = fatal W e (print_err (lit ''Loading model...'') start)"
  by (simp add: main_def)

lemma main_loaded:
  "load W = Inr g \<Longrightarrow>
   main W stdin =
     (case serve W stdin
        (g, print_err (lit ''Model loaded.'') (print_err (lit ''Loading model...'') start)) of
        (Inl e, g', s) \<Rightarrow> fatal W e s
      | (Inr u, g', s) \<Rightarrow> exit 0 s)"
  by (simp add: main_def)

lemma main_lines:
  "load W = Inr g \<Longrightarrow>
   main W (map Inr ls) =
     exit 0 (snd (snd (serve W (map Inr ls)
        (g, print_err (lit ''Model loaded.'') (print_err (lit ''Loading model...'') start)))))"
  using serve_lines_returns [of W ls
      "(g, print_err (lit ''Model loaded.'') (print_err (lit ''Loading model...'') start))"]
  by (auto simp: main_loaded split: prod.splits sum.splits)

lemma main_raised:
  "load W = Inr g \<Longrightarrow>
   main W (map Inr pre @ Inl e # post) =
     fatal W e (snd (snd (serve W (map Inr pre)
        (g, print_err (lit ''Model loaded.'') (print_err (lit ''Loading model...'') start)))))"
  by (simp add: main_loaded serve_raises split: prod.splits)

lemma serve_responses:
  "\<exists>rs. length rs = length ls \<and> (\<forall>r\<in>set rs. newline \<notin> set r) \<and>
     (\<forall>k\<le>length ls.
        written (stdout (snd (snd (serve W (map Inr (take k ls)) (g, s))))) =
          written (stdout s) @ concat (map (\<lambda>r. r @ [newline]) (take k rs)))"
proof (induction ls rule: rev_induct)
  case Nil
  show ?case by simp
next
  case (snoc l ls)
  then obtain rs where len: "length rs = length ls" and nl: "\<forall>r\<in>set rs. newline \<notin> set r"
    and run: "\<And>k. k \<le> length ls \<Longrightarrow>
        written (stdout (snd (snd (serve W (map Inr (take k ls)) (g, s))))) =
          written (stdout s) @ concat (map (\<lambda>r. r @ [newline]) (take k rs))"
    by blast
  obtain g1 s1 where s1: "snd (serve W (map Inr ls) (g, s)) = (g1, s1)"
    by (cases "snd (serve W (map Inr ls) (g, s))")
  obtain r where r: "(\<exists>t. r = dumps (lit ''result'') t) \<or> (\<exists>m. r = dumps (lit ''error'') m)"
    and out: "stdout (snd (handle_line W l (g1, s1\<lparr>consumed := consumed s1 + 1\<rparr>))) =
                print (drain W) r False (stdout s1)"
    using handle_line_one_line [of W l g1 "s1\<lparr>consumed := consumed s1 + 1\<rparr>"] by auto
  from r have rnl: "newline \<notin> set r"
    by (auto simp: dumps_no_newline)
  have full: "written (stdout (snd (snd (serve W (map Inr (ls @ [l])) (g, s))))) =
      written (stdout s) @ concat (map (\<lambda>r. r @ [newline]) (rs @ [r]))"
    using run [of "length ls"] s1 out len
    by (simp add: serve_lines_append written_print split: prod.splits)
  show ?case
  proof (intro exI [of _ "rs @ [r]"] conjI allI impI)
    show "length (rs @ [r]) = length (ls @ [l])"
      using len by simp
    show "\<forall>r\<in>set (rs @ [r]). newline \<notin> set r"
      using nl rnl by simp
    fix k
    assume k: "k \<le> length (ls @ [l])"
    show "written (stdout (snd (snd (serve W (map Inr (take k (ls @ [l]))) (g, s))))) =
          written (stdout s) @ concat (map (\<lambda>r. r @ [newline]) (take k (rs @ [r])))"
    proof (cases "k \<le> length ls")
      case True
      with run [of k] len show ?thesis by simp
    next
      case False
      with k have "k = length (ls @ [l])" by simp
      with full len show ?thesis by simp
    qed
  qed
qed

lemma dumps_literals:
  \<open>dumps (lit ''error'') (lit ''Prompt is required.'') = lit ''{"error": "Prompt is required."}''\<close>
  \<open>dumps (lit ''error'') (lit ''Expecting value: line 1 column 1 (char 0)'') =
     lit ''{"error": "Expecting value: line 1 column 1 (char 0)"}''\<close>
  \<open>dumps (lit ''error'') (lit ''Failed to load model: '' @ lit ''resource unavailable'') =
     lit ''{"error": "Failed to load model: resource unavailable"}''\<close>
  \<open>dumps (lit ''result'') (lit ''The stock market'' @ lit '' is up'') =
     lit ''{"result": "The stock market is up"}''\<close>
  \<open>dumps (lit ''error'') (lit ''index out of range in self'') =
     lit ''{"error": "index out of range in self"}''\<close>
  \<open>dumps (lit ''error'') (quoted (lit ''generated_text'')) =
     lit ''{"error": "'generated_text'"}''\<close>
  \<open>dumps (lit ''error'') (quoted (lit ''int'') @ lit '' object has no attribute '' @ quoted (lit ''strip'')) =
     lit ''{"error": "'int' object has no attribute 'strip'"}''\<close>
  \<open>dumps (lit ''error'') (quoted (lit ''list'') @ lit '' object has no attribute '' @ quoted (lit ''get'')) =
     lit ''{"error": "'list' object has no attribute 'get'"}''\<close>
  by (simp_all add: dumps_def encode_basestring_ascii_def lit_def quoted_def)

lemma strip_literals:
  "strip (lit ''The stock market'') = lit ''The stock market''"
  "strip (lit ''  '') = []"
  by (simp_all add: strip_def isspace_def lit_def)

lemma lit_not_Nil: "lit ''The stock market'' \<noteq> []"
  by (simp add: lit_def)

lemma generator_continues:
  "generator (sample_world continues pol) g (lit ''The stock market'') 128 1 =
     (Inr [[(lit ''generated_text'', lit ''The stock market'' @ lit '' is up'')]], g + 1)"
  by (simp add: sample_world_simps continues_def)

lemma load_offline_world: "load offline_world = Inl (Exception (lit ''resource unavailable''))"
  by (simp add: load_def offline_world_def sample_world_def)

lemma line_buffered_empties: "\<forall>p. length p < line_buffered (p @ [newline])"
  by (simp add: line_buffered_def)

lemma try_line_no_text:
  \<open>try_line (sample_world no_text line_buffered)
      (lit ''{"prompt": "The stock market"}'' @ [newline]) (0, start) =
     (Inl (Exception (quoted (lit ''generated_text''))), 1,
      start\<lparr>calls := calls start @ [(lit ''The stock market'', 128, 1)]\<rparr>)\<close>
  by (simp add: try_line_def sample_world_simps sample_loads_simps strip_literals lit_not_Nil
      no_text_def generated_text_def)

lemma try_line_raises:
  \<open>try_line (sample_world raises line_buffered)
      (lit ''{"prompt": "The stock market"}'' @ [newline]) (0, start) =
     (Inl (Exception (lit ''index out of range in self'')), 1,
      start\<lparr>calls := calls start @ [(lit ''The stock market'', 128, 1)]\<rparr>)\<close>
  by (simp add: try_line_def sample_world_simps sample_loads_simps strip_literals lit_not_Nil
      raises_def)

lemma exit_io_status:
  "exit_status (exit_io F st ns) = (if exit_flush_fails F then 120 else st)"
  "lines_consumed (exit_io F st (n, s)) = consumed s"
  by (simp_all add: exit_io_def exit_status_def lines_consumed_def split: prod.splits)

lemma fatal_io_status:
  "exit_status (fatal_io F W e ns) = (if exit_flush_fails F then 120 else 1)"
  by (simp add: fatal_io_def exit_io_status split: prod.splits sum.splits)

lemma print_out_io_consumed:
  "print_out_io F W text (n, s) = (r, n', s') \<Longrightarrow> consumed s' = consumed s"
  by (auto simp: print_out_io_def print_out_simps split: option.splits)

lemma print_err_io_consumed:
  "print_err_io F text (n, s) = (r, n', s') \<Longrightarrow> consumed s' = consumed s"
  by (auto simp: print_err_io_def print_err_simps split: option.splits)

lemma try_line_io_consumed:
  "try_line_io F W line (g, n, s) = (r, g', n', s') \<Longrightarrow> consumed s' = consumed s"
  by (auto simp: try_line_io_def Let_def split: sum.splits if_splits prod.splits
      dest: print_out_io_consumed)

lemma handle_line_io_consumed:
  "handle_line_io F W line (g, n, s) = (r, g', n', s') \<Longrightarrow> consumed s' = consumed s"
proof -
  assume h: "handle_line_io F W line (g, n, s) = (r, g', n', s')"
  obtain r1 g1 n1 s1 where t: "try_line_io F W line (g, n, s) = (r1, g1, n1, s1)"
    by (cases "try_line_io F W line (g, n, s)") auto
  then have c1: "consumed s1 = consumed s"
    by (rule try_line_io_consumed)
  show ?thesis
  proof (cases r1)
    case (Inl e)
    obtain r2 n2 s2 where p: "print_out_io F W (dumps (lit ''error'') (str e)) (n1, s1) = (r2, n2, s2)"
      by (cases "print_out_io F W (dumps (lit ''error'') (str e)) (n1, s1)") auto
    from print_out_io_consumed [OF p] c1 h t Inl p show ?thesis
      by (simp add: handle_line_io_def)
  next
    case (Inr u)
    with h t c1 show ?thesis
      by (simp add: handle_line_io_def)
  qed
qed

lemma serve_io_returns:
  "serve_io F W stdin (g, n, s) = (Inr (), g', n', s') \<Longrightarrow>
   (\<forall>x\<in>set stdin. \<exists>line. x = Inr line) \<and> consumed s' = consumed s + length stdin"
proof (induction stdin arbitrary: g n s)
  case Nil
  then show ?case by simp
next
  case (Cons x stdin)
  show ?case
  proof (cases x)
    case (Inl e)
    with Cons.prems show ?thesis by simp
  next
    case (Inr line)
    obtain r g1 n1 s1 where h:
      "handle_line_io F W line (g, n, s\<lparr>consumed := consumed s + 1\<rparr>) = (r, g1, n1, s1)"
      by (cases "handle_line_io F W line (g, n, s\<lparr>consumed := consumed s + 1\<rparr>)") auto
    with Cons.prems Inr have "serve_io F W stdin (g1, n1, s1) = (Inr (), g', n', s')"
      by (cases r) simp_all
    from Cons.IH [OF this] handle_line_io_consumed [OF h] Inr show ?thesis
      by simp
  qed
qed

lemma print_out_io_succeeds:
  "\<forall>n. print_raises F n = None \<Longrightarrow>
   print_out_io F W text (n, s) = (Inr (), n + 1, print_out W text s)"
  by (simp add: print_out_io_def)

lemma print_err_io_succeeds:
  "\<forall>n. print_raises F n = None \<Longrightarrow>
   print_err_io F text (n, s) = (Inr (), n + 1, print_err text s)"
  by (simp add: print_err_io_def)

lemma try_line_io_succeeds:
  assumes "\<forall>n. print_raises F n = None"
  shows "\<exists>n'. try_line_io F W line (g, n, s) =
           (fst (try_line W line (g, s)), fst (snd (try_line W line (g, s))), n',
            snd (snd (try_line W line (g, s))))"
  by (auto simp: try_line_io_def try_line_def Let_def print_out_io_succeeds [OF assms]
      split: sum.splits prod.splits)

lemma handle_line_io_succeeds:
  assumes "\<forall>n. print_raises F n = None"
  shows "\<exists>n'. handle_line_io F W line (g, n, s) =
           (Inr (), fst (handle_line W line (g, s)), n', snd (handle_line W line (g, s)))"
proof -
  obtain n' where "try_line_io F W line (g, n, s) =
      (fst (try_line W line (g, s)), fst (snd (try_line W line (g, s))), n',
       snd (snd (try_line W line (g, s))))"
    using try_line_io_succeeds [OF assms, of W line g n s] by blast
  then show ?thesis
    by (cases "try_line W line (g, s)")
      (auto simp: handle_line_io_def handle_line_def print_out_io_succeeds [OF assms]
        split: sum.splits)
qed

lemma serve_io_succeeds:
  assumes "\<forall>n. print_raises F n = None"
  shows "\<exists>n'. serve_io F W stdin (g, n, s) =
           (fst (serve W stdin (g, s)), fst (snd (serve W stdin (g, s))), n',
            snd (snd (serve W stdin (g, s))))"
proof (induction stdin arbitrary: g n s)
  case Nil
  show ?case by simp
next
  case (Cons x stdin)
  show ?case
  proof (cases x)
    case (Inl e)
    then show ?thesis by simp
  next
    case (Inr line)
    obtain n1 where h: "handle_line_io F W line (g, n, s\<lparr>consumed := consumed s + 1\<rparr>) =
        (Inr (), fst (handle_line W line (g, s\<lparr>consumed := consumed s + 1\<rparr>)), n1,
         snd (handle_line W line (g, s\<lparr>consumed := consumed s + 1\<rparr>)))"
      using handle_line_io_succeeds [OF assms, of W line g n "s\<lparr>consumed := consumed s + 1\<rparr>"]
      by blast
    obtain g1 s1 where l: "handle_line W line (g, s\<lparr>consumed := consumed s + 1\<rparr>) = (g1, s1)"
      by (cases "handle_line W line (g, s\<lparr>consumed := consumed s + 1\<rparr>)")
    from Cons.IH [of g1 n1 s1] h l Inr show ?thesis
      by simp
  qed
qed

lemma main_io_succeeds:
  assumes "writes_succeed F"
  shows "main_io F W stdin = main W stdin"
proof -
  from assms have p: "\<forall>n. print_raises F n = None" and f: "\<not> exit_flush_fails F"
    by (simp_all add: writes_succeed_def)
  have ex: "exit_io F st (n, s) = exit st s" for st n s
    using f by (simp add: exit_io_def exit_def)
  have fa: "fatal_io F W e (n, s) = fatal W e s" for e n s
    by (simp add: fatal_io_def fatal_def print_out_io_succeeds [OF p] ex)
  show ?thesis
  proof (cases "load W")
    case (Inl e)
    then show ?thesis
      by (simp add: main_io_def main_def print_err_io_succeeds [OF p] fa)
  next
    case (Inr g)
    let ?s = "print_err (lit ''Model loaded.'') (print_err (lit ''Loading model...'') start)"
    obtain n' where "serve_io F W stdin (g, Suc (Suc 0), ?s) =
        (fst (serve W stdin (g, ?s)), fst (snd (serve W stdin (g, ?s))), n',
         snd (snd (serve W stdin (g, ?s))))"
      using serve_io_succeeds [OF p, of W stdin g "Suc (Suc 0)" ?s] by blast
    with Inr show ?thesis
      by (cases "serve W stdin (g, ?s)")
        (auto simp: main_io_def main_def print_err_io_succeeds [OF p] fa ex split: sum.splits)
  qed
qed


lemma main_io_status:
  "exit_status (main_io F W stdin) = (if exit_flush_fails F then 120 else 0) \<or>
   exit_status (main_io F W stdin) = (if exit_flush_fails F then 120 else 1)"
  by (simp add: main_io_def fatal_io_status exit_io_status split: sum.splits prod.splits)

lemma print_err_io_returns:
  "print_err_io F text (n, s) = (Inr (), n', s') \<Longrightarrow>
   print_raises F n = None \<and> n' = n + 1 \<and> consumed s' = consumed s"
  by (auto simp: print_err_io_def print_err_simps split: option.splits)

lemma main_io_zeroD:
  assumes "exit_status (main_io F W stdin) = 0"
  shows "\<exists>g g' n' s1 s'. load W = Inr g \<and> print_raises F 0 = None \<and> print_raises F 1 = None \<and>
           consumed s1 = 0 \<and> serve_io F W stdin (g, 2, s1) = (Inr (), g', n', s') \<and>
           main_io F W stdin = exit_io F 0 (n', s')"
proof -
  obtain r0 n0 s0 where p0: "print_err_io F (lit ''Loading model...'') (0, start) = (r0, n0, s0)"
    by (cases "print_err_io F (lit ''Loading model...'') (0, start)") auto
  obtain r1 n1 s1 where p1: "print_err_io F (lit ''Model loaded.'') (n0, s0) = (r1, n1, s1)"
    by (cases "print_err_io F (lit ''Model loaded.'') (n0, s0)") auto
  from assms have st: "exit_status (main_io F W stdin) \<noteq> (if exit_flush_fails F then 120 else 1)"
    by simp
  show ?thesis
  proof (cases "load W")
    case (Inl e)
    with p0 st show ?thesis
      by (simp add: main_io_def fatal_io_status split: sum.splits)
  next
    case (Inr g)
    obtain r2 g2 n2 s2 where sv: "serve_io F W stdin (g, n1, s1) = (r2, g2, n2, s2)"
      by (cases "serve_io F W stdin (g, n1, s1)") auto
    from Inr p0 p1 sv st have ok: "r0 = Inr ()" "r1 = Inr ()" "r2 = Inr ()"
      by (auto simp: main_io_def fatal_io_status split: sum.splits)
    from p0 ok have a: "print_raises F 0 = None" "n0 = 1" "consumed s0 = 0"
      using print_err_io_returns [of F "lit ''Loading model...''" 0 start n0 s0]
      by (simp_all add: start_simps)
    from p1 ok a have b: "print_raises F 1 = None" "n1 = 2" "consumed s1 = 0"
      using print_err_io_returns [of F "lit ''Model loaded.''" n0 s0 n1 s1]
      by simp_all
    from sv ok b have "serve_io F W stdin (g, 2, s1) = (Inr (), g2, n2, s2)"
      by simp
    moreover from Inr p0 p1 sv ok have "main_io F W stdin = exit_io F 0 (n2, s2)"
      by (simp add: main_io_def)
    ultimately show ?thesis
      using Inr a b by blast
  qed
qed

lemma main_io_zero:
  assumes "exit_status (main_io F W stdin) = 0"
  shows "(\<exists>g. load W = Inr g) \<and> (\<forall>x\<in>set stdin. \<exists>line. x = Inr line) \<and>
         lines_consumed (main_io F W stdin) = length stdin"
proof -
  from main_io_zeroD [OF assms] obtain g g' n' s1 s' where g: "load W = Inr g"
    and c: "consumed s1 = 0" and sv: "serve_io F W stdin (g, 2, s1) = (Inr (), g', n', s')"
    and m: "main_io F W stdin = exit_io F 0 (n', s')"
    by blast
  from serve_io_returns [OF sv] c g m show ?thesis
    by (simp add: exit_io_status)
qed

lemma print_out_io_counts:
  "print_out_io F W text (n, s) = (r, n', s') \<Longrightarrow>
   n' = n + 1 \<and> (r = Inr () \<longrightarrow> print_raises F n = None)"
  by (auto simp: print_out_io_def split: option.splits)

lemma try_line_io_counts:
  "try_line_io F W line (g, n, s) = (r, g', n', s') \<Longrightarrow>
   (n' = n \<and> r \<noteq> Inr ()) \<or> (n' = n + 1 \<and> (r = Inr () \<longrightarrow> print_raises F n = None))"
  by (auto simp: try_line_io_def Let_def split: sum.splits if_splits prod.splits
      dest!: print_out_io_counts)

lemma handle_line_io_counts:
  assumes "handle_line_io F W line (g, n, s) = (Inr (), g', n', s')"
  shows "n < n' \<and> print_raises F (n' - 1) = None"
proof -
  obtain r1 g1 n1 s1 where t: "try_line_io F W line (g, n, s) = (r1, g1, n1, s1)"
    by (cases "try_line_io F W line (g, n, s)") auto
  note c = try_line_io_counts [OF t]
  show ?thesis
  proof (cases r1)
    case (Inl e)
    obtain r2 n2 s2 where p: "print_out_io F W (dumps (lit ''error'') (str e)) (n1, s1) = (r2, n2, s2)"
      by (cases "print_out_io F W (dumps (lit ''error'') (str e)) (n1, s1)") auto
    from assms t Inl p have "r2 = Inr ()" "n' = n2"
      by (simp_all add: handle_line_io_def)
    with print_out_io_counts [OF p] c show ?thesis
      by auto
  next
    case (Inr u)
    with assms t have "n' = n1"
      by (simp add: handle_line_io_def)
    with c Inr show ?thesis
      by auto
  qed
qed

lemma serve_io_counts:
  assumes "\<forall>m\<ge>k. print_raises F m \<noteq> None"
  shows "serve_io F W stdin (g, n, s) = (Inr (), g', n', s') \<Longrightarrow>
         n + length stdin \<le> n' \<and> (stdin \<noteq> [] \<longrightarrow> n' \<le> k)"
proof (induction stdin arbitrary: g n s)
  case Nil
  then show ?case by simp
next
  case (Cons x stdin)
  show ?case
  proof (cases x)
    case (Inl e)
    with Cons.prems show ?thesis by simp
  next
    case (Inr line)
    obtain r g1 n1 s1 where h:
      "handle_line_io F W line (g, n, s\<lparr>consumed := consumed s + 1\<rparr>) = (r, g1, n1, s1)"
      by (cases "handle_line_io F W line (g, n, s\<lparr>consumed := consumed s + 1\<rparr>)") auto
    with Cons.prems Inr have r: "r = Inr ()" and sv: "serve_io F W stdin (g1, n1, s1) = (Inr (), g', n', s')"
      by (cases r; simp)+
    from h r have "n < n1" "print_raises F (n1 - 1) = None"
      using handle_line_io_counts [of F W line g n "s\<lparr>consumed := consumed s + 1\<rparr>" g1 n1 s1]
      by simp_all
    moreover have "n1 \<le> k"
    proof (rule ccontr)
      assume "\<not> n1 \<le> k"
      then have "k \<le> n1 - 1" by simp
      with assms have "print_raises F (n1 - 1) \<noteq> None" by blast
      with \<open>print_raises F (n1 - 1) = None\<close> show False by simp
    qed
    ultimately have n1: "n < n1" "n1 \<le> k"
      by simp_all
    from Cons.IH [OF sv] have ih: "n1 + length stdin \<le> n'" "stdin \<noteq> [] \<longrightarrow> n' \<le> k"
      by simp_all
    have "stdin = [] \<Longrightarrow> n' = n1"
      using sv by simp
    with n1 ih show ?thesis
      by (cases "stdin = []") auto
  qed
qed

lemma main_io_broken_output:
  assumes "\<forall>m\<ge>k. print_raises F m \<noteq> None" and "k < 2 + length stdin"
  shows "exit_status (main_io F W stdin) \<noteq> 0"
proof
  assume "exit_status (main_io F W stdin) = 0"
  from main_io_zeroD [OF this] obtain g g' n' s1 s' where p: "print_raises F 0 = None"
    "print_raises F 1 = None" and sv: "serve_io F W stdin (g, 2, s1) = (Inr (), g', n', s')"
    by blast
  from serve_io_counts [OF assms(1) sv] have c: "2 + length stdin \<le> n'" "stdin \<noteq> [] \<longrightarrow> n' \<le> k"
    by simp_all
  show False
  proof (cases "stdin = []")
    case True
    with assms(2) have "k \<le> 1" by simp
    with assms(1) have "print_raises F 1 \<noteq> None" by blast
    with p show False by simp
  next
    case False
    with c assms(2) show False by simp
  qed
qed

lemma main_exit_paths:
  "exit_status (main W stdin) =
     (if (\<exists>g. load W = Inr g) \<and> (\<forall>x\<in>set stdin. \<exists>line. x = Inr line) then 0 else 1) \<and>
   (exit_status (main W stdin) = 0 \<longrightarrow>
      lines_consumed (main W stdin) = length stdin \<and>
      count_list (emitted (main W stdin)) newline = length stdin)"
proof (cases "load W")
  case (Inl e)
  then show ?thesis
    by (simp add: main_not_loaded fatal_simps)
next
  case (Inr g)
  let ?s = "print_err (lit ''Model loaded.'') (print_err (lit ''Loading model...'') start)"
  obtain r g' s' where run: "serve W stdin (g, ?s) = (r, g', s')"
    by (cases "serve W stdin (g, ?s)")
  show ?thesis
  proof (cases r)
    case (Inl e)
    with run have "\<not> (\<forall>x\<in>set stdin. \<exists>line. x = Inr line)"
      using serve_returns_iff [of W stdin "(g, ?s)"] by simp
    with Inr Inl run show ?thesis
      by (simp add: main_loaded fatal_simps)
  next
    case u: (Inr u)
    with run have all: "\<forall>x\<in>set stdin. \<exists>line. x = Inr line"
      using serve_returns_iff [of W stdin "(g, ?s)"] by simp
    from run u have "serve W stdin (g, ?s) = (Inr (), g', s')"
      by simp
    from serve_counts [OF this] have "consumed s' = length stdin"
      "count_list (written (stdout s')) newline = length stdin"
      by (simp_all add: print_err_simps start_simps)
    with Inr u run all show ?thesis
      by (simp add: main_loaded exit_simps)
  qed
qed

lemma main_io_flush_fails:
  "exit_flush_fails F \<Longrightarrow> exit_status (main_io F W stdin) = 120"
  using main_io_status [of F W stdin] by auto

lemma io_simps:
  "writes_succeed reliable" "exit_flush_fails full_device"
  "\<not> exit_flush_fails closed_pipe" "\<forall>m\<ge>2. print_raises closed_pipe m \<noteq> None"
  by (simp_all add: writes_succeed_def reliable_def full_device_def closed_pipe_def)

section \<open>The properties of the service\<close>

text \<open>
  C1. When the model loads and standard input delivers the lines \<open>ls\<close>, the run
  emits one answer per line: there are answers \<open>rs\<close>, as many as lines and none
  containing a line end, such that the output of the run on the first \<open>k\<close> lines is
  the first \<open>k\<close> answers, each followed by its line end, whatever the lines decode
  to and whatever the generator does. So the \<open>k\<close>-th output line answers the \<open>k\<close>-th
  input line.
\<close>

theorem one_output_line_per_input_line:
  assumes "load W = Inr g"
  shows "\<exists>rs. length rs = length ls \<and> (\<forall>r\<in>set rs. newline \<notin> set r) \<and>
           (\<forall>k\<le>length ls.
              emitted (main W (map Inr (take k ls))) =
                concat (map (\<lambda>r. r @ [newline]) (take k rs)))"
  using serve_responses [of ls W g
      "print_err (lit ''Model loaded.'') (print_err (lit ''Loading model...'') start)"] assms
  by (simp add: main_lines exit_simps print_err_simps start_simps)

text \<open>The three sample lines: a prompt, no JSON, a blank prompt.\<close>

theorem one_output_line_per_input_line_witness:
  "load (sample_world continues line_buffered) = Inr 0 \<and>
   (\<exists>rs. length rs = length sample_lines \<and> (\<forall>r\<in>set rs. newline \<notin> set r) \<and>
      (\<forall>k\<le>length sample_lines.
         emitted (main (sample_world continues line_buffered) (map Inr (take k sample_lines))) =
           concat (map (\<lambda>r. r @ [newline]) (take k rs)))) \<and>
   length sample_lines = 3"
  using one_output_line_per_input_line [OF load_sample_world, of sample_lines continues line_buffered]
    load_sample_world [of continues line_buffered]
  by (simp add: sample_lines_def)

text \<open>
  C2. A line that decodes to a dictionary whose \<^verbatim>\<open>prompt\<close> is absent, or is a string
  that is empty or consists of whitespace only, is answered with exactly
  \<^verbatim>\<open>{"error": "Prompt is required."}\<close> and a line end; the generator is not called
  (its state and the list of calls are unchanged).
\<close>

theorem empty_prompt_is_required:
  assumes "loads W line = Inr (JObj kvs)"
    and "map_of kvs (lit ''prompt'') = None \<or>
         (\<exists>p. map_of kvs (lit ''prompt'') = Some (JStr p) \<and> (\<forall>c\<in>set p. isspace c))"
  shows \<open>handle_line W line (g, s) =
           (g, print_out W (lit ''{"error": "Prompt is required."}'') s) \<and>
         written (stdout (snd (handle_line W line (g, s)))) =
           written (stdout s) @ lit ''{"error": "Prompt is required."}'' @ [newline] \<and>
         calls (snd (handle_line W line (g, s))) = calls s\<close>
proof -
  have d: \<open>dumps (lit ''error'') (lit ''Prompt is required.'') =
           lit ''{"error": "Prompt is required."}''\<close>
    by (simp add: dumps_def encode_basestring_ascii_def lit_def)
  from assms(2) have "strip_value (case map_of kvs (lit ''prompt'') of None \<Rightarrow> JStr [] | Some v \<Rightarrow> v) = Inr []"
    by (auto simp: strip_empty_iff)
  with assms(1) have "handle_line W line (g, s) =
      (g, print_out W (dumps (lit ''error'') (lit ''Prompt is required.'')) s)"
    by (simp add: handle_line_def try_line_def)
  then show ?thesis
    by (simp add: d print_out_simps written_print)
qed

text \<open>The prompt of two blanks in the sample world.\<close>

theorem empty_prompt_is_required_witness:
  \<open>loads (sample_world continues line_buffered) (lit ''{"prompt": "  "}'' @ [newline]) =
     Inr (JObj [(lit ''prompt'', JStr (lit ''  ''))]) \<and>
   list_all isspace (lit ''  '') \<and>
   written (stdout (snd (handle_line (sample_world continues line_buffered)
       (lit ''{"prompt": "  "}'' @ [newline]) (0, start)))) =
     lit ''{"error": "Prompt is required."}'' @ [newline] \<and>
   calls (snd (handle_line (sample_world continues line_buffered)
       (lit ''{"prompt": "  "}'' @ [newline]) (0, start))) = []\<close>
proof -
  have h1: \<open>loads (sample_world continues line_buffered) (lit ''{"prompt": "  "}'' @ [newline]) =
     Inr (JObj [(lit ''prompt'', JStr (lit ''  ''))])\<close>
    by (simp add: sample_world_simps sample_loads_simps)
  have sp: "\<forall>c\<in>set (lit ''  ''). isspace c"
    by (simp add: lit_def isspace_def)
  then have h2: "map_of [(lit ''prompt'', JStr (lit ''  ''))] (lit ''prompt'') = None \<or>
         (\<exists>p. map_of [(lit ''prompt'', JStr (lit ''  ''))] (lit ''prompt'') = Some (JStr p) \<and>
              (\<forall>c\<in>set p. isspace c))"
    by simp
  note t = empty_prompt_is_required [OF h1 h2, of 0 start]
  from t have \<open>written (stdout (snd (handle_line (sample_world continues line_buffered)
       (lit ''{"prompt": "  "}'' @ [newline]) (0, start)))) =
     written (stdout start) @ lit ''{"error": "Prompt is required."}'' @ [newline]\<close>
    by (rule conjunct1 [OF conjunct2])
  moreover from t have \<open>calls (snd (handle_line (sample_world continues line_buffered)
       (lit ''{"prompt": "  "}'' @ [newline]) (0, start))) = calls start\<close>
    by (rule conjunct2 [OF conjunct2])
  ultimately show ?thesis
    using h1 sp by (simp only: start_simps append_Nil simp_thms list_all_iff)
qed

text \<open>
  C3 claims that a \<^verbatim>\<open>prompt\<close> that is not a string counts as empty. The script has
  no such check: \<^verbatim>\<open>data.get("prompt", "")\<close> returns the number of
  \<^verbatim>\<open>{"prompt": 5}\<close>, \<^verbatim>\<open>.strip()\<close> raises on it, and the answer carries the text of
  that exception, not \<^verbatim>\<open>Prompt is required.\<close>
\<close>

theorem non_string_prompt_counterexample:
  \<open>loads (sample_world continues line_buffered) (lit ''{"prompt": 5}'' @ [newline]) =
     Inr (JObj [(lit ''prompt'', JInt 5)]) \<and>
   written (stdout (snd (handle_line (sample_world continues line_buffered)
       (lit ''{"prompt": 5}'' @ [newline]) (0, start)))) =
     lit ''{"error": "'int' object has no attribute 'strip'"}'' @ [newline] \<and>
   lit ''{"error": "'int' object has no attribute 'strip'"}'' \<noteq>
     lit ''{"error": "Prompt is required."}''\<close>
  by (simp add: handle_line_def try_line_def sample_world_simps sample_loads_simps
      print_out_simps written_print start_simps attribute_error_def dumps_literals)
    (simp add: lit_def)

text \<open>
  C3, amended. A line that decodes to a dictionary whose \<^verbatim>\<open>prompt\<close> is present and is
  not a string makes \<^verbatim>\<open>.strip()\<close> raise \<^verbatim>\<open>AttributeError\<close>; the handler of the line
  answers it: what is written to standard output for the line is exactly
  \<^verbatim>\<open>{"error": "'T' object has no attribute 'strip'"}\<close> and a line end, \<^verbatim>\<open>T\<close> the
  type of the value, and the generator is not called.
\<close>

theorem non_string_prompt_attribute_error:
  assumes "loads W line = Inr (JObj kvs)"
    and "map_of kvs (lit ''prompt'') = Some v"
    and "\<forall>p. v \<noteq> JStr p"
  shows "written (stdout (snd (handle_line W line (g, s)))) =
           written (stdout s) @
           dumps (lit ''error'')
             (quoted (type_name v) @ lit '' object has no attribute '' @ quoted (lit ''strip''))
           @ [newline] \<and>
         newline \<notin> set (dumps (lit ''error'')
             (quoted (type_name v) @ lit '' object has no attribute '' @ quoted (lit ''strip''))) \<and>
         handle_line W line (g, s) =
           (g, print_out W (dumps (lit ''error'')
                 (quoted (type_name v) @ lit '' object has no attribute '' @ quoted (lit ''strip'')))
               s) \<and>
         calls (snd (handle_line W line (g, s))) = calls s"
proof -
  from assms(3) have "strip_value v = Inl (attribute_error v (lit ''strip''))"
    by (cases v) simp_all
  with assms(1,2) have "try_line W line (g, s) = (Inl (attribute_error v (lit ''strip'')), g, s)"
    by (simp add: try_line_def)
  then have "handle_line W line (g, s) =
      (g, print_out W (dumps (lit ''error'') (str (attribute_error v (lit ''strip'')))) s)"
    by (rule handle_line_raised)
  then show ?thesis
    by (simp add: attribute_error_def print_out_simps written_print dumps_no_newline)
qed

text \<open>The line \<^verbatim>\<open>{"prompt": 5}\<close>.\<close>

theorem non_string_prompt_attribute_error_witness:
  \<open>loads (sample_world continues line_buffered) (lit ''{"prompt": 5}'' @ [newline]) =
     Inr (JObj [(lit ''prompt'', JInt 5)]) \<and>
   map_of [(lit ''prompt'', JInt 5)] (lit ''prompt'') = Some (JInt 5) \<and>
   written (stdout (snd (handle_line (sample_world continues line_buffered)
       (lit ''{"prompt": 5}'' @ [newline]) (0, start)))) =
     lit ''{"error": "'int' object has no attribute 'strip'"}'' @ [newline] \<and>
   calls (snd (handle_line (sample_world continues line_buffered)
       (lit ''{"prompt": 5}'' @ [newline]) (0, start))) = []\<close>
proof -
  have h1: \<open>loads (sample_world continues line_buffered) (lit ''{"prompt": 5}'' @ [newline]) =
     Inr (JObj [(lit ''prompt'', JInt 5)])\<close>
    by (simp add: sample_world_simps sample_loads_simps)
  have h2: "map_of [(lit ''prompt'', JInt 5)] (lit ''prompt'') = Some (JInt 5)"
    by simp
  have h3: "\<forall>p. JInt 5 \<noteq> JStr p"
    by simp
  note t = non_string_prompt_attribute_error [OF h1 h2 h3, of 0 start]
  from t have w: \<open>written (stdout (snd (handle_line (sample_world continues line_buffered)
       (lit ''{"prompt": 5}'' @ [newline]) (0, start)))) =
     written (stdout start) @
     dumps (lit ''error'')
       (quoted (type_name (JInt 5)) @ lit '' object has no attribute '' @ quoted (lit ''strip''))
     @ [newline]\<close>
    by (rule conjunct1)
  from t have c: \<open>calls (snd (handle_line (sample_world continues line_buffered)
       (lit ''{"prompt": 5}'' @ [newline]) (0, start))) = calls start\<close>
    by (rule conjunct2 [THEN conjunct2, THEN conjunct2])
  from h1 w c show ?thesis
    by (simp add: dumps_literals start_simps)
qed

text \<open>
  C4. A line that \<^verbatim>\<open>json.loads\<close> rejects (with the exception \<open>e\<close>), or that decodes
  to something other than a dictionary (\<open>e\<close> is then the \<^verbatim>\<open>AttributeError\<close> of
  \<^verbatim>\<open>.get\<close>), is answered with the one line \<^verbatim>\<open>{"error": str(e)}\<close>; the generator is
  not called, and the loop goes on with the rest of the input.
\<close>

theorem undecodable_line_answered:
  assumes "loads W line = Inl e \<or>
           (\<exists>v. loads W line = Inr v \<and> (\<forall>kvs. v \<noteq> JObj kvs) \<and>
                e = attribute_error v (lit ''get''))"
  shows "serve W (Inr line # rest) (g, s) =
           serve W rest
             (g, print_out W (dumps (lit ''error'') (str e)) (s\<lparr>consumed := consumed s + 1\<rparr>)) \<and>
         written (stdout (print_out W (dumps (lit ''error'') (str e))
                            (s\<lparr>consumed := consumed s + 1\<rparr>))) =
           written (stdout s) @ dumps (lit ''error'') (str e) @ [newline] \<and>
         newline \<notin> set (dumps (lit ''error'') (str e)) \<and>
         calls (print_out W (dumps (lit ''error'') (str e)) (s\<lparr>consumed := consumed s + 1\<rparr>)) =
           calls s"
proof -
  from assms have "try_line W line (g, s\<lparr>consumed := consumed s + 1\<rparr>) =
      (Inl e, g, s\<lparr>consumed := consumed s + 1\<rparr>)"
    by (auto simp: try_line_loads_fails try_line_not_dict)
  then have "handle_line W line (g, s\<lparr>consumed := consumed s + 1\<rparr>) =
      (g, print_out W (dumps (lit ''error'') (str e)) (s\<lparr>consumed := consumed s + 1\<rparr>))"
    by (rule handle_line_raised)
  then show ?thesis
    by (simp add: print_out_simps written_print dumps_no_newline)
qed

text \<open>A list and a line that is no JSON, each followed by another line.\<close>

theorem undecodable_line_answered_witness:
  \<open>loads (sample_world continues line_buffered) (lit ''[1, 2]'' @ [newline]) =
     Inr (JArr [JInt 1, JInt 2]) \<and>
   serve (sample_world continues line_buffered)
      [Inr (lit ''[1, 2]'' @ [newline]), Inr (lit ''{"prompt": "  "}'' @ [newline])] (0, start) =
     serve (sample_world continues line_buffered) [Inr (lit ''{"prompt": "  "}'' @ [newline])]
      (0, print_out (sample_world continues line_buffered)
            (lit ''{"error": "'list' object has no attribute 'get'"}'')
            (start\<lparr>consumed := consumed start + 1\<rparr>)) \<and>
   loads (sample_world continues line_buffered) (lit ''not json'' @ [newline]) =
     Inl (Exception (lit ''Expecting value: line 1 column 1 (char 0)'')) \<and>
   serve (sample_world continues line_buffered)
      [Inr (lit ''not json'' @ [newline]), Inr (lit ''{"prompt": "  "}'' @ [newline])] (0, start) =
     serve (sample_world continues line_buffered) [Inr (lit ''{"prompt": "  "}'' @ [newline])]
      (0, print_out (sample_world continues line_buffered)
            (lit ''{"error": "Expecting value: line 1 column 1 (char 0)"}'')
            (start\<lparr>consumed := consumed start + 1\<rparr>))\<close>
proof -
  have a: \<open>loads (sample_world continues line_buffered) (lit ''[1, 2]'' @ [newline]) =
     Inr (JArr [JInt 1, JInt 2])\<close>
    by (simp add: sample_world_simps sample_loads_simps)
  then have ha: \<open>loads (sample_world continues line_buffered) (lit ''[1, 2]'' @ [newline]) =
        Inl (attribute_error (JArr [JInt 1, JInt 2]) (lit ''get'')) \<or>
      (\<exists>v. loads (sample_world continues line_buffered) (lit ''[1, 2]'' @ [newline]) = Inr v \<and>
          (\<forall>kvs. v \<noteq> JObj kvs) \<and>
          attribute_error (JArr [JInt 1, JInt 2]) (lit ''get'') = attribute_error v (lit ''get''))\<close>
    by simp
  have b: \<open>loads (sample_world continues line_buffered) (lit ''not json'' @ [newline]) =
     Inl (Exception (lit ''Expecting value: line 1 column 1 (char 0)''))\<close>
    by (simp add: sample_world_simps sample_loads_simps)
  then have hb: \<open>loads (sample_world continues line_buffered) (lit ''not json'' @ [newline]) =
        Inl (Exception (lit ''Expecting value: line 1 column 1 (char 0)'')) \<or>
      (\<exists>v. loads (sample_world continues line_buffered) (lit ''not json'' @ [newline]) = Inr v \<and>
          (\<forall>kvs. v \<noteq> JObj kvs) \<and>
          Exception (lit ''Expecting value: line 1 column 1 (char 0)'') =
            attribute_error v (lit ''get''))\<close>
    by simp
  have ta: \<open>serve (sample_world continues line_buffered)
      [Inr (lit ''[1, 2]'' @ [newline]), Inr (lit ''{"prompt": "  "}'' @ [newline])] (0, start) =
     serve (sample_world continues line_buffered) [Inr (lit ''{"prompt": "  "}'' @ [newline])]
      (0, print_out (sample_world continues line_buffered)
            (dumps (lit ''error'') (str (attribute_error (JArr [JInt 1, JInt 2]) (lit ''get''))))
            (start\<lparr>consumed := consumed start + 1\<rparr>))\<close>
    using undecodable_line_answered [OF ha, of "[Inr (lit ''{\"prompt\": \"  \"}'' @ [newline])]" 0 start]
    by (rule conjunct1)
  have tb: \<open>serve (sample_world continues line_buffered)
      [Inr (lit ''not json'' @ [newline]), Inr (lit ''{"prompt": "  "}'' @ [newline])] (0, start) =
     serve (sample_world continues line_buffered) [Inr (lit ''{"prompt": "  "}'' @ [newline])]
      (0, print_out (sample_world continues line_buffered)
            (dumps (lit ''error'') (str (Exception (lit ''Expecting value: line 1 column 1 (char 0)''))))
            (start\<lparr>consumed := consumed start + 1\<rparr>))\<close>
    using undecodable_line_answered [OF hb, of "[Inr (lit ''{\"prompt\": \"  \"}'' @ [newline])]" 0 start]
    by (rule conjunct1)
  show ?thesis
    using a b ta tb by (simp only: attribute_error_def type_name.simps exn.sel dumps_literals simp_thms)
qed

text \<open>
  C5. A line whose prompt is a string that is not empty once stripped calls the
  generator once, with the stripped prompt, \<^verbatim>\<open>max_length=128\<close> and
  \<^verbatim>\<open>num_return_sequences=1\<close>. When the call returns no candidate, what is written
  to standard output for the line is exactly \<^verbatim>\<open>{"result": ""}\<close> and a line end; when
  it returns candidates, it is exactly \<^verbatim>\<open>{"result": t}\<close> and a line end, with \<open>t\<close>
  the generated text of the first.
\<close>

theorem prompt_generates_once:
  assumes "loads W line = Inr (JObj kvs)"
    and "map_of kvs (lit ''prompt'') = Some (JStr p)"
    and "strip p \<noteq> []"
  shows \<open>calls (snd (handle_line W line (g, s))) = calls s @ [(strip p, 128, 1)] \<and>
         (\<forall>out g'. generator W g (strip p) 128 1 = (Inr out, g') \<longrightarrow>
            (out = [] \<longrightarrow>
               written (stdout (snd (handle_line W line (g, s)))) =
                 written (stdout s) @ lit ''{"result": ""}'' @ [newline] \<and>
               handle_line W line (g, s) =
                 (g', print_out W (lit ''{"result": ""}'')
                        (s\<lparr>calls := calls s @ [(strip p, 128, 1)]\<rparr>))) \<and>
            (\<forall>c cs t. out = c # cs \<and> map_of c (lit ''generated_text'') = Some t \<longrightarrow>
               written (stdout (snd (handle_line W line (g, s)))) =
                 written (stdout s) @ dumps (lit ''result'') t @ [newline] \<and>
               newline \<notin> set (dumps (lit ''result'') t) \<and>
               handle_line W line (g, s) =
                 (g', print_out W (dumps (lit ''result'') t)
                        (s\<lparr>calls := calls s @ [(strip p, 128, 1)]\<rparr>))))\<close>
proof -
  have d: \<open>dumps (lit ''result'') [] = lit ''{"result": ""}''\<close>
    by (simp add: dumps_def encode_basestring_ascii_def lit_def)
  from assms show ?thesis
    by (auto simp: handle_line_def try_line_def generated_text_def Let_def print_out_simps d
        written_print dumps_no_newline
        split: sum.splits prod.splits list.splits option.splits)
qed

text \<open>
  The prompt \<^verbatim>\<open>The stock market\<close> with the generator that continues it, and with the
  generator that returns no candidate.
\<close>

theorem prompt_generates_once_witness:
  \<open>loads (sample_world continues line_buffered)
      (lit ''{"prompt": "The stock market"}'' @ [newline]) =
     Inr (JObj [(lit ''prompt'', JStr (lit ''The stock market''))]) \<and>
   strip (lit ''The stock market'') = lit ''The stock market'' \<and>
   calls (snd (handle_line (sample_world continues line_buffered)
      (lit ''{"prompt": "The stock market"}'' @ [newline]) (0, start))) =
     [(lit ''The stock market'', 128, 1)] \<and>
   written (stdout (snd (handle_line (sample_world continues line_buffered)
      (lit ''{"prompt": "The stock market"}'' @ [newline]) (0, start)))) =
     lit ''{"result": "The stock market is up"}'' @ [newline] \<and>
   written (stdout (snd (handle_line (sample_world no_candidate line_buffered)
      (lit ''{"prompt": "The stock market"}'' @ [newline]) (0, start)))) =
     lit ''{"result": ""}'' @ [newline]\<close>
proof -
  have h1: \<open>loads (sample_world gen line_buffered)
      (lit ''{"prompt": "The stock market"}'' @ [newline]) =
     Inr (JObj [(lit ''prompt'', JStr (lit ''The stock market''))])\<close> for gen
    by (simp add: sample_world_simps sample_loads_simps)
  have h2: "map_of [(lit ''prompt'', JStr (lit ''The stock market''))] (lit ''prompt'') =
      Some (JStr (lit ''The stock market''))"
    by simp
  have h3: "strip (lit ''The stock market'') \<noteq> []"
    by (simp add: strip_literals lit_not_Nil)
  note t = prompt_generates_once [OF h1 h2 h3, of continues 0 start]
  note u = prompt_generates_once [OF h1 h2 h3, of no_candidate 0 start]
  from t have c: \<open>calls (snd (handle_line (sample_world continues line_buffered)
      (lit ''{"prompt": "The stock market"}'' @ [newline]) (0, start))) =
     calls start @ [(strip (lit ''The stock market''), 128, 1)]\<close>
    by (rule conjunct1)
  have "generator (sample_world continues line_buffered) 0 (strip (lit ''The stock market''))
      128 1 = (Inr [[(lit ''generated_text'', lit ''The stock market'' @ lit '' is up'')]], 0 + 1)"
    by (simp add: strip_literals generator_continues)
  note tg = t [THEN conjunct2, rule_format, OF this, THEN conjunct2, rule_format]
  have "[[(lit ''generated_text'', lit ''The stock market'' @ lit '' is up'')]] =
      [(lit ''generated_text'', lit ''The stock market'' @ lit '' is up'')] # [] \<and>
    map_of [(lit ''generated_text'', lit ''The stock market'' @ lit '' is up'')]
      (lit ''generated_text'') = Some (lit ''The stock market'' @ lit '' is up'')"
    by simp
  from tg [OF this] have r: \<open>written (stdout (snd (handle_line (sample_world continues line_buffered)
      (lit ''{"prompt": "The stock market"}'' @ [newline]) (0, start)))) =
     written (stdout start) @
     dumps (lit ''result'') (lit ''The stock market'' @ lit '' is up'') @ [newline]\<close>
    by (rule conjunct1)
  have "generator (sample_world no_candidate line_buffered) 0 (strip (lit ''The stock market''))
      128 1 = (Inr [], 0 + 1)"
    by (simp add: sample_world_simps no_candidate_def)
  note ug = u [THEN conjunct2, rule_format, OF this, THEN conjunct1, rule_format]
  from ug [OF refl] have e: \<open>written (stdout (snd (handle_line (sample_world no_candidate line_buffered)
      (lit ''{"prompt": "The stock market"}'' @ [newline]) (0, start)))) =
     written (stdout start) @ lit ''{"result": ""}'' @ [newline]\<close>
    by (rule conjunct1)
  from h1 [of continues] c r e show ?thesis
    by (simp add: strip_literals start_simps dumps_literals)
qed

text \<open>
  C6. When loading raises \<open>e\<close>, the run emits the one line
  \<^verbatim>\<open>{"error": "Failed to load model: str(e)"}\<close>, takes no line from standard input,
  calls no generator and exits with status 1.
\<close>

theorem load_failure_is_fatal:
  assumes "load W = Inl e"
  shows "emitted (main W stdin) =
           dumps (lit ''error'') (lit ''Failed to load model: '' @ str e) @ [newline] \<and>
         count_list (emitted (main W stdin)) newline = 1 \<and>
         lines_consumed (main W stdin) = 0 \<and>
         generator_calls (main W stdin) = [] \<and>
         exit_status (main W stdin) = 1"
  using assms
  by (simp add: main_not_loaded fatal_simps print_err_simps start_simps dumps_no_newline)

text \<open>The world whose model cannot be fetched.\<close>

theorem load_failure_is_fatal_witness:
  \<open>load offline_world = Inl (Exception (lit ''resource unavailable'')) \<and>
   emitted (main offline_world (map Inr sample_lines)) =
     lit ''{"error": "Failed to load model: resource unavailable"}'' @ [newline] \<and>
   lines_consumed (main offline_world (map Inr sample_lines)) = 0 \<and>
   exit_status (main offline_world (map Inr sample_lines)) = 1\<close>
  using load_failure_is_fatal [OF load_offline_world, of "map Inr sample_lines"] load_offline_world
  by (simp add: dumps_literals)

text \<open>
  C7 claims that the status is not zero only when the model failed to load, and zero
  whenever the model loaded and the input reached its end. The outer \<^verbatim>\<open>try\<close>
  encloses the loop as well: with the model loaded, a pull from standard input that
  raises ends the process with status 1. And with the model loaded and every line
  answered, a flush at interpreter exit that fails ends it with status 120.
\<close>

theorem exit_paths_counterexample:
  \<open>load (sample_world continues line_buffered) = Inr 0 \<and>
   exit_status (main (sample_world continues line_buffered)
     [Inl (Exception (quoted (lit ''utf-8'') @
        lit '' codec can't decode byte 0xff in position 0: invalid start byte''))]) = 1 \<and>
   exit_status (main_io full_device (sample_world continues line_buffered)
     (map Inr sample_lines)) = 120\<close>
  using main_raised [of "sample_world continues line_buffered" 0 "[]"]
  by (simp add: load_sample_world fatal_simps main_io_flush_fails io_simps)

text \<open>
  C7, amended. The status is 0, 1 or 120. It is 120 exactly when the flush at
  interpreter exit fails. It is 0 only if the model loaded and every pull from standard
  input up to its end gave a line, all lines having been taken; and it is not 0 when,
  from some call on, every \<^verbatim>\<open>print\<close> raises while a notice or the answer to a line
  is still to be printed. When no \<^verbatim>\<open>print\<close> raises and the final flush succeeds, the
  run is the run of \<open>main\<close>: the status is 0 exactly when the model loaded and every
  pull from standard input up to its end gave a line (the output is then one line for
  each of them, with nothing after the last answer), and 1 exactly when loading raised
  or a pull from standard input raised.
\<close>

theorem exit_paths:
  "(exit_status (main_io F W stdin) = 0 \<or> exit_status (main_io F W stdin) = 1 \<or>
    exit_status (main_io F W stdin) = 120) \<and>
   (exit_status (main_io F W stdin) = 120 \<longleftrightarrow> exit_flush_fails F) \<and>
   (exit_status (main_io F W stdin) = 0 \<longrightarrow>
      (\<exists>g. load W = Inr g) \<and> (\<forall>x\<in>set stdin. \<exists>line. x = Inr line) \<and>
      lines_consumed (main_io F W stdin) = length stdin) \<and>
   ((\<exists>k. (\<forall>m\<ge>k. print_raises F m \<noteq> None) \<and> k < 2 + length stdin) \<longrightarrow>
      exit_status (main_io F W stdin) \<noteq> 0) \<and>
   (writes_succeed F \<longrightarrow>
      main_io F W stdin = main W stdin \<and>
      exit_status (main_io F W stdin) =
        (if (\<exists>g. load W = Inr g) \<and> (\<forall>x\<in>set stdin. \<exists>line. x = Inr line) then 0 else 1) \<and>
      (exit_status (main_io F W stdin) = 0 \<longrightarrow>
         count_list (emitted (main_io F W stdin)) newline = length stdin))"
proof (intro conjI impI)
  show "exit_status (main_io F W stdin) = 0 \<or> exit_status (main_io F W stdin) = 1 \<or>
    exit_status (main_io F W stdin) = 120"
    using main_io_status [of F W stdin] by (auto split: if_splits)
  show "exit_status (main_io F W stdin) = 120 \<longleftrightarrow> exit_flush_fails F"
    using main_io_status [of F W stdin] by (auto split: if_splits)
next
  assume "exit_status (main_io F W stdin) = 0"
  then have z: "(\<exists>g. load W = Inr g) \<and> (\<forall>x\<in>set stdin. \<exists>line. x = Inr line) \<and>
         lines_consumed (main_io F W stdin) = length stdin"
    by (rule main_io_zero)
  from z show "\<exists>g. load W = Inr g" by blast
  from z show "\<forall>x\<in>set stdin. \<exists>line. x = Inr line" by blast
  from z show "lines_consumed (main_io F W stdin) = length stdin" by blast
next
  assume "\<exists>k. (\<forall>m\<ge>k. print_raises F m \<noteq> None) \<and> k < 2 + length stdin"
  then show "exit_status (main_io F W stdin) \<noteq> 0"
    using main_io_broken_output [of _ F stdin W] by blast
next
  assume "writes_succeed F"
  then show eq: "main_io F W stdin = main W stdin"
    by (rule main_io_succeeds)
  show "exit_status (main_io F W stdin) =
        (if (\<exists>g. load W = Inr g) \<and> (\<forall>x\<in>set stdin. \<exists>line. x = Inr line) then 0 else 1)"
    unfolding eq using main_exit_paths [of W stdin] by blast
  assume "exit_status (main_io F W stdin) = 0"
  then show "count_list (emitted (main_io F W stdin)) newline = length stdin"
    unfolding eq using main_exit_paths [of W stdin] by blast
qed

text \<open>
  A clean run, a run that cannot load, a run whose input breaks, a run whose final
  flush fails, and a run whose reader has gone.
\<close>

theorem exit_paths_witness:
  "writes_succeed reliable \<and>
   exit_status (main_io reliable (sample_world continues line_buffered) (map Inr sample_lines)) = 0 \<and>
   lines_consumed (main_io reliable (sample_world continues line_buffered)
     (map Inr sample_lines)) = 3 \<and>
   count_list (emitted (main_io reliable (sample_world continues line_buffered)
     (map Inr sample_lines))) newline = 3 \<and>
   exit_status (main_io reliable offline_world (map Inr sample_lines)) = 1 \<and>
   exit_status (main_io reliable (sample_world continues line_buffered)
     [Inr (lit ''not json'' @ [newline]), Inl (Exception (lit ''invalid start byte''))]) = 1 \<and>
   exit_status (main_io full_device (sample_world continues line_buffered)
     (map Inr sample_lines)) = 120 \<and>
   exit_status (main_io closed_pipe (sample_world continues line_buffered)
     (map Inr sample_lines)) = 1"
proof -
  have len: "length sample_lines = 3"
    by (simp add: sample_lines_def)
  note a = exit_paths [of reliable "sample_world continues line_buffered" "map Inr sample_lines"]
  note b = exit_paths [of reliable offline_world "map Inr sample_lines"]
  note c = exit_paths [of reliable "sample_world continues line_buffered"
        "[Inr (lit ''not json'' @ [newline]), Inl (Exception (lit ''invalid start byte''))]"]
  note d = exit_paths [of full_device "sample_world continues line_buffered" "map Inr sample_lines"]
  note e = exit_paths [of closed_pipe "sample_world continues line_buffered" "map Inr sample_lines"]
  note qa = a [THEN conjunct2, THEN conjunct2, THEN conjunct2, THEN conjunct2, THEN mp,
      OF io_simps(1), THEN conjunct2]
  note qb = b [THEN conjunct2, THEN conjunct2, THEN conjunct2, THEN conjunct2, THEN mp,
      OF io_simps(1), THEN conjunct2]
  note qc = c [THEN conjunct2, THEN conjunct2, THEN conjunct2, THEN conjunct2, THEN mp,
      OF io_simps(1), THEN conjunct2]
  from qa [THEN conjunct1]
  have a0: "exit_status (main_io reliable (sample_world continues line_buffered)
      (map Inr sample_lines)) = 0"
    by (simp add: load_sample_world)
  from a [THEN conjunct2, THEN conjunct2, THEN conjunct1, THEN mp, OF a0]
  have a1: "lines_consumed (main_io reliable (sample_world continues line_buffered)
     (map Inr sample_lines)) = 3"
    by (simp add: len)
  from qa [THEN conjunct2, THEN mp, OF a0]
  have a2: "count_list (emitted (main_io reliable (sample_world continues line_buffered)
     (map Inr sample_lines))) newline = 3"
    by (simp add: len)
  from qb [THEN conjunct1]
  have b1: "exit_status (main_io reliable offline_world (map Inr sample_lines)) = 1"
    by (simp add: load_offline_world)
  from qc [THEN conjunct1]
  have c1: "exit_status (main_io reliable (sample_world continues line_buffered)
     [Inr (lit ''not json'' @ [newline]), Inl (Exception (lit ''invalid start byte''))]) = 1"
    by simp
  from d [THEN conjunct2, THEN conjunct1]
  have d1: "exit_status (main_io full_device (sample_world continues line_buffered)
     (map Inr sample_lines)) = 120"
    by (simp add: io_simps)
  have "\<exists>k. (\<forall>m\<ge>k. print_raises closed_pipe m \<noteq> None) \<and>
      k < 2 + length (map Inr sample_lines :: (exn + ustr) list)"
    using io_simps(4) by (intro exI [of _ 2]) (simp add: len)
  with e [THEN conjunct2, THEN conjunct2, THEN conjunct2, THEN conjunct1]
  have "exit_status (main_io closed_pipe (sample_world continues line_buffered)
     (map Inr sample_lines)) \<noteq> 0"
    by blast
  moreover from e [THEN conjunct2, THEN conjunct1]
  have "exit_status (main_io closed_pipe (sample_world continues line_buffered)
     (map Inr sample_lines)) \<noteq> 120"
    by (simp add: io_simps)
  ultimately have e1: "exit_status (main_io closed_pipe (sample_world continues line_buffered)
     (map Inr sample_lines)) = 1"
    using e [THEN conjunct1] by blast
  from a0 a1 a2 b1 c1 d1 e1 io_simps(1) show ?thesis
    by simp
qed

text \<open>
  C8. Whatever statement of the inner \<^verbatim>\<open>try\<close> raises, and whatever the exception
  (decoding, a missing method, the generator, a candidate without text), the handler
  of the line turns it into the one line \<^verbatim>\<open>{"error": str(e)}\<close>; the loop takes up the
  rest of the input after every line, and a loop over lines never ends with an
  exception.
\<close>

theorem line_failure_contained:
  assumes "try_line W line (g, s) = (Inl e, g', s')"
  shows "handle_line W line (g, s) = (g', print_out W (dumps (lit ''error'') (str e)) s') \<and>
         written (stdout (snd (handle_line W line (g, s)))) =
           written (stdout s) @ dumps (lit ''error'') (str e) @ [newline] \<and>
         newline \<notin> set (dumps (lit ''error'') (str e)) \<and>
         serve W (Inr line # rest) (g, s) =
           serve W rest (handle_line W line (g, s\<lparr>consumed := consumed s + 1\<rparr>)) \<and>
         fst (serve W (map Inr lines) (g, s)) = Inr ()"
proof -
  from assms have "handle_line W line (g, s) =
      (g', print_out W (dumps (lit ''error'') (str e)) s')"
    by (rule handle_line_raised)
  moreover from assms have "stdout s' = stdout s"
    by (simp add: try_line_raises_stdout)
  ultimately show ?thesis
    by (simp add: print_out_simps written_print dumps_no_newline serve_lines_returns)
qed

text \<open>
  A failure that is neither a decoding nor a generation error: the generator returns a
  candidate without \<^verbatim>\<open>generated_text\<close>, and the subscript raises \<^verbatim>\<open>KeyError\<close>. Then a
  generator that raises.
\<close>

theorem line_failure_contained_witness:
  \<open>try_line (sample_world no_text line_buffered)
      (lit ''{"prompt": "The stock market"}'' @ [newline]) (0, start) =
     (Inl (Exception (quoted (lit ''generated_text''))), 1,
      start\<lparr>calls := calls start @ [(lit ''The stock market'', 128, 1)]\<rparr>) \<and>
   written (stdout (snd (handle_line (sample_world no_text line_buffered)
      (lit ''{"prompt": "The stock market"}'' @ [newline]) (0, start)))) =
     lit ''{"error": "'generated_text'"}'' @ [newline] \<and>
   serve (sample_world no_text line_buffered)
      (Inr (lit ''{"prompt": "The stock market"}'' @ [newline]) # map Inr sample_lines) (0, start) =
     serve (sample_world no_text line_buffered) (map Inr sample_lines)
      (handle_line (sample_world no_text line_buffered)
         (lit ''{"prompt": "The stock market"}'' @ [newline])
         (0, start\<lparr>consumed := consumed start + 1\<rparr>)) \<and>
   fst (serve (sample_world no_text line_buffered) (map Inr sample_lines) (0, start)) = Inr () \<and>
   try_line (sample_world raises line_buffered)
      (lit ''{"prompt": "The stock market"}'' @ [newline]) (0, start) =
     (Inl (Exception (lit ''index out of range in self'')), 1,
      start\<lparr>calls := calls start @ [(lit ''The stock market'', 128, 1)]\<rparr>) \<and>
   written (stdout (snd (handle_line (sample_world raises line_buffered)
      (lit ''{"prompt": "The stock market"}'' @ [newline]) (0, start)))) =
     lit ''{"error": "index out of range in self"}'' @ [newline]\<close>
  using line_failure_contained [OF try_line_no_text, of "map Inr sample_lines" sample_lines,
      THEN conjunct2]
    line_failure_contained [OF try_line_raises, of "[]" "[]", THEN conjunct2]
    try_line_no_text try_line_raises
  by (simp add: dumps_literals start_simps)

text \<open>
  C9 claims that every answer is flushed. The script calls \<^verbatim>\<open>print\<close> without
  \<^verbatim>\<open>flush=True\<close> and never flushes standard output: on a block buffered stream (a
  pipe) the answer is still in the buffer after the line has been handled, and the
  consumer has received nothing.
\<close>

theorem emit_not_flushed_counterexample:
  \<open>pending (stdout (snd (handle_line (sample_world continues (block_buffered 8192))
       (lit ''{"prompt": "  "}'' @ [newline]) (0, start)))) =
     lit ''{"error": "Prompt is required."}'' @ [newline] \<and>
   delivered (stdout (snd (handle_line (sample_world continues (block_buffered 8192))
       (lit ''{"prompt": "  "}'' @ [newline]) (0, start)))) = []\<close>
  by (simp add: handle_line_def try_line_def sample_world_simps sample_loads_simps
      strip_literals dumps_literals print_out_simps)
    (simp add: start_def print_def write_text_def block_buffered_def Let_def lit_def)

text \<open>
  C9, amended. Every line is answered by one \<^verbatim>\<open>print\<close> of one JSON object
  \<^verbatim>\<open>{"result": ...}\<close> or \<^verbatim>\<open>{"error": ...}\<close> that contains no line end, with no flush
  asked for: the answer and its line end are appended to standard output, and the
  buffer is empty afterwards when the stream's own policy empties it at every line
  end (nothing is said of a stream that buffers whole blocks).
\<close>

theorem emit_one_line_unflushed:
  \<open>\<exists>r. ((\<exists>t. r = lit ''{"result": '' @ encode_basestring_ascii t @ lit ''}'') \<or>
         (\<exists>m. r = lit ''{"error": '' @ encode_basestring_ascii m @ lit ''}'')) \<and>
       newline \<notin> set r \<and>
       stdout (snd (handle_line W line (g, s))) = print (drain W) r False (stdout s) \<and>
       written (stdout (snd (handle_line W line (g, s)))) = written (stdout s) @ r @ [newline] \<and>
       ((\<forall>p. length p < drain W (p @ [newline])) \<longrightarrow>
          pending (stdout (snd (handle_line W line (g, s)))) = [])\<close>
proof -
  have res: \<open>dumps (lit ''result'') t = lit ''{"result": '' @ encode_basestring_ascii t @ lit ''}''\<close>
    for t
    by (simp add: dumps_def encode_basestring_ascii_def lit_def)
  have err: \<open>dumps (lit ''error'') m = lit ''{"error": '' @ encode_basestring_ascii m @ lit ''}''\<close>
    for m
    by (simp add: dumps_def encode_basestring_ascii_def lit_def)
  obtain r where r: "(\<exists>t. r = dumps (lit ''result'') t) \<or> (\<exists>m. r = dumps (lit ''error'') m)"
    and out: "stdout (snd (handle_line W line (g, s))) = print (drain W) r False (stdout s)"
    using handle_line_one_line [of W line g s] by blast
  from r have nl: "newline \<notin> set r"
    by (auto simp: dumps_no_newline)
  from r have form: \<open>(\<exists>t. r = lit ''{"result": '' @ encode_basestring_ascii t @ lit ''}'') \<or>
         (\<exists>m. r = lit ''{"error": '' @ encode_basestring_ascii m @ lit ''}'')\<close>
    using res err by metis
  show ?thesis
    using form nl out by (intro exI [of _ r]) (simp add: written_print print_pending_empty)
qed

text \<open>A line buffered stream.\<close>

theorem emit_one_line_unflushed_witness:
  \<open>(\<forall>p. length p < drain (sample_world continues line_buffered) (p @ [newline])) \<and>
   pending (stdout (snd (handle_line (sample_world continues line_buffered)
      (lit ''{"prompt": "  "}'' @ [newline]) (0, start)))) = [] \<and>
   (\<exists>r. newline \<notin> set r \<and>
      written (stdout (snd (handle_line (sample_world continues line_buffered)
        (lit ''{"prompt": "  "}'' @ [newline]) (0, start)))) = r @ [newline])\<close>
  using emit_one_line_unflushed [of "sample_world continues line_buffered"
      \<open>lit ''{"prompt": "  "}'' @ [newline]\<close> 0 start] line_buffered_empties
  by (auto simp: sample_world_simps start_simps)

text \<open>
  C10. With the model loaded, when standard input gives the lines \<open>pre\<close> and its next
  pull raises \<open>e\<close>, the run emits the answers to \<open>pre\<close> (the output of the run on
  \<open>pre\<close> alone, which ends with status 0), then the line
  \<^verbatim>\<open>{"error": "Failed to load model: str(e)"}\<close>, and exits with status 1; the lines of
  \<open>pre\<close> have been taken, and what follows the failure is never read.
\<close>

theorem stream_failure_reported_as_load_failure:
  assumes "load W = Inr g"
  shows "emitted (main W (map Inr pre @ Inl e # post)) =
           emitted (main W (map Inr pre)) @
           dumps (lit ''error'') (lit ''Failed to load model: '' @ str e) @ [newline] \<and>
         exit_status (main W (map Inr pre @ Inl e # post)) = 1 \<and>
         exit_status (main W (map Inr pre)) = 0 \<and>
         lines_consumed (main W (map Inr pre @ Inl e # post)) = length pre \<and>
         generator_calls (main W (map Inr pre @ Inl e # post)) =
           generator_calls (main W (map Inr pre))"
proof -
  let ?s = "print_err (lit ''Model loaded.'') (print_err (lit ''Loading model...'') start)"
  obtain r g' s' where run: "serve W (map Inr pre) (g, ?s) = (r, g', s')"
    by (cases "serve W (map Inr pre) (g, ?s)")
  then have "consumed s' = length pre"
    using serve_calls_consumed_at_raise [OF run] by (simp add: print_err_simps start_simps)
  with assms run show ?thesis
    by (simp add: main_lines main_raised fatal_simps exit_simps)
qed

text \<open>The three sample lines, then a byte sequence that does not decode.\<close>

theorem stream_failure_reported_as_load_failure_witness:
  \<open>load (sample_world continues line_buffered) = Inr 0 \<and>
   emitted (main (sample_world continues line_buffered)
      (map Inr sample_lines @ [Inl (Exception (lit ''invalid start byte'')),
         Inr (lit ''{}'' @ [newline])])) =
     emitted (main (sample_world continues line_buffered) (map Inr sample_lines)) @
     dumps (lit ''error'') (lit ''Failed to load model: '' @ lit ''invalid start byte'') @ [newline] \<and>
   exit_status (main (sample_world continues line_buffered)
      (map Inr sample_lines @ [Inl (Exception (lit ''invalid start byte'')),
         Inr (lit ''{}'' @ [newline])])) = 1 \<and>
   lines_consumed (main (sample_world continues line_buffered)
      (map Inr sample_lines @ [Inl (Exception (lit ''invalid start byte'')),
         Inr (lit ''{}'' @ [newline])])) = 3\<close>
proof -
  have len: "length sample_lines = 3"
    by (simp add: sample_lines_def)
  show ?thesis
    using stream_failure_reported_as_load_failure [OF load_sample_world,
        of continues line_buffered sample_lines "Exception (lit ''invalid start byte'')"
          "[Inr (lit ''{}'' @ [newline])]"]
      load_sample_world [of continues line_buffered]
    by (simp add: len)
qed

end
